theory Spec2Isabelle
  imports Complex_Main "HOL-Library.Multiset"
begin

section \<open>Data model (lib/types.ts)\<close>

text \<open>
  The room state is the string union \<^verbatim>\<open>"lobby" | "playing" | "game-over" | "victory"\<close>.
  A JavaScript number is a binary64 floating-point value. The lives of a room are
  modelled as \<open>real\<close>, the finite numbers, and what the code computes from them is rounded
  as binary64 rounds it. The values returned by \<^verbatim>\<open>Math.random()\<close> are modelled as \<open>real\<close> as
  well; an index or a card value drawn with one is the floor of the exact product. Card
  values, lengths and timestamps are modelled as \<open>int\<close>. The hand size \<^verbatim>\<open>numbersPerPlayer\<close> is
  modelled as \<open>int\<close> too: this development covers the rooms and configurations whose hand
  size is an integer.
\<close>

subsection \<open>Binary64 arithmetic\<close>

text \<open>
  \<open>nearestDouble x\<close> is the binary64 value nearest to the real \<open>x\<close>, a tie going to the
  value with the even significand: the result of an arithmetic operation whose exact
  result is \<open>x\<close>. For the exponent \<open>e\<close> of \<open>x\<close>, the greatest integer with \<open>2 ^ e \<le> \<bar>x\<bar>\<close>, the
  binary64 values around \<open>x\<close> are the multiples of \<open>2 ^ (e - 52)\<close>; below \<open>2 ^ (- 1022)\<close> they
  are the multiples of \<open>2 ^ (- 1074)\<close>. A result of magnitude \<open>2 ^ 1024\<close> or more would be an
  infinity: a decrement of a binary64 value never is, and in \<open>getGameState\<close> only the
  product can be, where the progress is 0 whether computed with the infinity or the real.
  \<open>decrement x\<close> is the value that \<^verbatim>\<open>x--\<close> stores.
\<close>

definition roundHalfEven :: "real \<Rightarrow> int" where
  "roundHalfEven r =
     (let f = \<lfloor>r\<rfloor>
      in if r - of_int f < 1 / 2 then f
         else if 1 / 2 < r - of_int f then f + 1
         else if even f then f else f + 1)"

definition nearestDouble :: "real \<Rightarrow> real" where
  "nearestDouble x =
     (if x = 0 then 0
      else let e = max \<lfloor>log 2 \<bar>x\<bar>\<rfloor> (- 1022);
               ulp = 2 powr of_int (e - 52)
           in of_int (roundHalfEven (x / ulp)) * ulp)"

definition decrement :: "real \<Rightarrow> real" where
  "decrement x = nearestDouble (x - 1)"

subsection \<open>Rooms\<close>

datatype room_state = Lobby | Playing | GameOver | Victory

record Player =
  player_id :: string
  username :: string
  numbers :: "int list"

text \<open>
  The \<^verbatim>\<open>error\<close> strings of \<^verbatim>\<open>validateMove\<close>, one constructor per message:
  "Game is not in playing state", "Player not found", "Player does not have this number",
  "Number already played" and "Expected e, got n" (carrying \<open>e\<close> and \<open>n\<close>).
\<close>

datatype move_error =
    NotPlaying
  | PlayerNotFound
  | NotHeld
  | AlreadyPlayed
  | OutOfOrder int int

datatype event_type = MoveMade | MoveFailed | GameStarted | GameEnded | GameReset

text \<open>
  The \<^verbatim>\<open>data: any\<close> payload of an event, one constructor per shape the handlers build:
  a message; a successful move (player id, player name, number, timeline); a failed move
  (player id, player name, number, error, lives lost, lives left); the end of a game
  (result, message).
\<close>

datatype event_data =
    MessageData string
  | MoveData string "string option" int "int list"
  | FailData string "string option" int "move_error option" "int option" real
  | EndData string string

record GameEvent =
  ev_id :: string
  ev_type :: event_type
  ev_data :: event_data
  ev_timestamp :: int

record GameRoom =
  room_id :: string
  players :: "Player list"
  timeline :: "int list"
  lives :: real
  maxLives :: real
  numbersPerPlayer :: int
  state :: room_state
  hostId :: string
  gameEvents :: "GameEvent list"

section \<open>The game engine (lib/gameLogic.ts)\<close>



subsection \<open>generateAllPlayerNumbers\<close>



text \<open>\<^verbatim>\<open>Array.prototype.slice(start, end)\<close> on integer arguments.\<close>

definition slice :: "'a list \<Rightarrow> int \<Rightarrow> int \<Rightarrow> 'a list" where
  "slice xs startIndex endIndex =
     (let len = int (length xs);
          k = (if startIndex < 0 then max (len + startIndex) 0 else min startIndex len);
          final = (if endIndex < 0 then max (len + endIndex) 0 else min endIndex len)
      in take (nat (final - k)) (drop (nat k) xs))"



subsection \<open>initializeGame\<close>


subsection \<open>validateMove and getNextExpectedNumber\<close>

definition getNextExpectedNumber :: "GameRoom \<Rightarrow> int" where
  "getNextExpectedNumber room =
     (let allNumbers = sort (concat (map numbers (players room)))
      in case find (\<lambda>num. num \<notin> set (timeline room)) allNumbers of
           Some num \<Rightarrow> num
         | None \<Rightarrow> - 1)"

datatype validation = Valid | Invalid move_error

definition validateMove :: "GameRoom \<Rightarrow> string \<Rightarrow> int \<Rightarrow> validation" where
  "validateMove room playerId number =
     (if state room \<noteq> Playing then Invalid NotPlaying
      else case find (\<lambda>p. player_id p = playerId) (players room) of
             None \<Rightarrow> Invalid PlayerNotFound
           | Some player \<Rightarrow>
               if number \<notin> set (numbers player) then Invalid NotHeld
               else if number \<in> set (timeline room) then Invalid AlreadyPlayed
               else let expectedNumber = getNextExpectedNumber room
                    in if number \<noteq> expectedNumber
                       then Invalid (OutOfOrder expectedNumber number)
                       else Valid)"

subsection \<open>makeMove\<close>

text \<open>
  The result descriptor \<^verbatim>\<open>{success, gameOver?, victory?, error?, livesLost?}\<close>; an absent
  field is \<open>None\<close>.
\<close>

record move_result =
  success :: bool
  gameOver :: "bool option"
  victory :: "bool option"
  error :: "move_error option"
  livesLost :: "int option"

text \<open>
  \<^verbatim>\<open>room.players.find(p => p.id === playerId)\<close> yields the first player with that id, and
  the assignment to its \<^verbatim>\<open>numbers\<close> changes that element of the array.
\<close>

fun updateFirst :: "('a \<Rightarrow> bool) \<Rightarrow> ('a \<Rightarrow> 'a) \<Rightarrow> 'a list \<Rightarrow> 'a list" where
  "updateFirst P f [] = []"
| "updateFirst P f (x # xs) = (if P x then f x # xs else x # updateFirst P f xs)"

definition makeMove :: "GameRoom \<Rightarrow> string \<Rightarrow> int \<Rightarrow> GameRoom \<times> move_result" where
  "makeMove room playerId number =
     (case validateMove room playerId number of
        Invalid e \<Rightarrow>
          (let room1 = room\<lparr> lives := decrement (lives room) \<rparr>
           in if lives room1 \<le> 0
              then (room1\<lparr> state := GameOver \<rparr>,
                    \<lparr> success = False, gameOver = Some True, victory = None,
                      error = Some e, livesLost = Some 1 \<rparr>)
              else (room1,
                    \<lparr> success = False, gameOver = None, victory = None,
                      error = Some e, livesLost = Some 1 \<rparr>))
      | Valid \<Rightarrow>
          (let room1 = room\<lparr> timeline := timeline room @ [number] \<rparr>;
               room2 = room1\<lparr> players :=
                          updateFirst (\<lambda>p. player_id p = playerId)
                            (\<lambda>p. p\<lparr> numbers := filter (\<lambda>n. n \<noteq> number) (numbers p) \<rparr>)
                            (players room1) \<rparr>;
               allNumbersPlayed = list_all (\<lambda>p. length (numbers p) = 0) (players room2)
           in if allNumbersPlayed
              then (room2\<lparr> state := Victory \<rparr>,
                    \<lparr> success = True, gameOver = None, victory = Some True,
                      error = None, livesLost = None \<rparr>)
              else (room2,
                    \<lparr> success = True, gameOver = None, victory = None,
                      error = None, livesLost = None \<rparr>)))"

subsection \<open>getGameState, addGameEvent, resetGame\<close>

text \<open>
  The projection sent as \<^verbatim>\<open>game-state-updated\<close>. The progress is
  \<^verbatim>\<open>Math.round((played / total) * 100)\<close>: the product, the quotient and the percentage
  are binary64 results, and \<^verbatim>\<open>Math.round\<close> takes the nearest integer, a tie going up.
\<close>

record game_state =
  gs_state :: room_state
  gs_lives :: real
  gs_maxLives :: real
  gs_timeline :: "int list"
  gs_progress :: int
  gs_remainingNumbers :: "int list"
  gs_gameEvents :: "GameEvent list"

definition getGameState :: "GameRoom \<Rightarrow> game_state" where
  "getGameState room =
     (let allNumbers = sort (concat (map numbers (players room)));
          totalNumbers =
            nearestDouble (real (length (players room)) * real_of_int (numbersPerPlayer room));
          playedNumbers = real (length (timeline room));
          progress = (if totalNumbers > 0
                      then nearestDouble (nearestDouble (playedNumbers / totalNumbers) * 100)
                      else 0)
      in \<lparr> gs_state = state room,
           gs_lives = lives room,
           gs_maxLives = maxLives room,
           gs_timeline = timeline room,
           gs_progress = \<lfloor>progress + 1 / 2\<rfloor>,
           gs_remainingNumbers = filter (\<lambda>n. n \<notin> set (timeline room)) allNumbers,
           gs_gameEvents = gameEvents room \<rparr>)"

text \<open>
  \<open>addGameEvent room eid ty d ts\<close>: the id \<^verbatim>\<open>`${Date.now()}-${random}`\<close> is the
  parameter \<open>eid\<close>; only the last 50 events are kept.
\<close>

definition addGameEvent ::
  "GameRoom \<Rightarrow> string \<Rightarrow> event_type \<Rightarrow> event_data \<Rightarrow> int \<Rightarrow> GameRoom" where
  "addGameEvent room eid ty d ts =
     (let events = gameEvents room @
                     [\<lparr> ev_id = eid, ev_type = ty, ev_data = d, ev_timestamp = ts \<rparr>]
      in room\<lparr> gameEvents :=
                 (if length events > 50 then drop (length events - 50) events else events) \<rparr>)"

definition resetGame :: "GameRoom \<Rightarrow> GameRoom" where
  "resetGame room =
     room\<lparr> players := map (\<lambda>player. player\<lparr> numbers := [] \<rparr>) (players room),
           timeline := [],
           lives := maxLives room,
           state := Lobby,
           gameEvents := [] \<rparr>"

section \<open>The room store (services/roomService.ts, database/database.ts)\<close>

text \<open>
  The two tables of the SQLite schema. \<^verbatim>\<open>rooms\<close> has the primary key \<^verbatim>\<open>id\<close>, so it is a
  map from room ids to rows. \<^verbatim>\<open>players\<close> is kept as the list of its rows in the order of
  \<^verbatim>\<open>joined_at\<close>, the order in which \<^verbatim>\<open>getRoom\<close> reads them; its primary key is the player
  id. The JSON columns are held as the values they encode, and a number written to a
  numeric column is read back as the same number. The statements are taken to succeed,
  except for the primary key of \<^verbatim>\<open>rooms\<close> on insertion.
\<close>

record room_row =
  row_max_lives :: real
  row_numbers_per_player :: int
  row_lives :: real
  row_state :: room_state
  row_host_id :: string
  row_timeline :: "int list"
  row_game_events :: "GameEvent list"

record player_row =
  prow_id :: string
  prow_room_id :: string
  prow_username :: string
  prow_numbers :: "int list"

record database =
  rooms_table :: "string \<rightharpoonup> room_row"
  players_table :: "player_row list"

definition toPlayer :: "player_row \<Rightarrow> Player" where
  "toPlayer row = \<lparr> player_id = prow_id row, username = prow_username row,
                    numbers = prow_numbers row \<rparr>"

definition getRoom :: "database \<Rightarrow> string \<Rightarrow> GameRoom option" where
  "getRoom db roomId =
     (case rooms_table db roomId of
        None \<Rightarrow> None
      | Some roomRow \<Rightarrow>
          Some \<lparr> room_id = roomId,
                 players = map toPlayer
                             (filter (\<lambda>row. prow_room_id row = roomId) (players_table db)),
                 timeline = row_timeline roomRow,
                 lives = row_lives roomRow,
                 maxLives = row_max_lives roomRow,
                 numbersPerPlayer = row_numbers_per_player roomRow,
                 state = row_state roomRow,
                 hostId = row_host_id roomRow,
                 gameEvents = row_game_events roomRow \<rparr>)"

text \<open>
  \<^verbatim>\<open>createRoom\<close>: the insertion fails on an id that is already a key, and the method then
  throws "Failed to create room" (\<open>None\<close>); otherwise the row gets the defaults of the
  schema and the method returns the new room object.
\<close>

definition createRoom ::
  "database \<Rightarrow> string \<Rightarrow> real \<Rightarrow> int \<Rightarrow> (database \<times> GameRoom) option" where
  "createRoom db roomId mLives npp =
     (if rooms_table db roomId \<noteq> None then None
      else Some (db\<lparr> rooms_table := (rooms_table db)(roomId \<mapsto>
                        \<lparr> row_max_lives = mLives, row_numbers_per_player = npp,
                          row_lives = mLives, row_state = Lobby, row_host_id = [],
                          row_timeline = [], row_game_events = [] \<rparr>) \<rparr>,
                 \<lparr> room_id = roomId, players = [], timeline = [], lives = mLives,
                   maxLives = mLives, numbersPerPlayer = npp, state = Lobby,
                   hostId = [], gameEvents = [] \<rparr>))"

text \<open>
  \<^verbatim>\<open>updateRoom\<close> writes lives, state, timeline, events and host of the room's row, then
  the numbers of every player of the room object, one \<^verbatim>\<open>UPDATE ... WHERE id = ?\<close> each.
\<close>

definition updatePlayerNumbers :: "player_row list \<Rightarrow> Player \<Rightarrow> player_row list" where
  "updatePlayerNumbers rows player =
     map (\<lambda>row. if prow_id row = player_id player
                then row\<lparr> prow_numbers := numbers player \<rparr> else row) rows"

definition updateRoom :: "database \<Rightarrow> GameRoom \<Rightarrow> database" where
  "updateRoom db room =
     db\<lparr> rooms_table :=
           (case rooms_table db (room_id room) of
              None \<Rightarrow> rooms_table db
            | Some roomRow \<Rightarrow>
                (rooms_table db)(room_id room \<mapsto>
                   roomRow\<lparr> row_lives := lives room, row_state := state room,
                            row_timeline := timeline room,
                            row_game_events := gameEvents room,
                            row_host_id := hostId room \<rparr>)),
         players_table := foldl updatePlayerNumbers (players_table db) (players room) \<rparr>"

text \<open>
  \<^verbatim>\<open>deleteRoom\<close>: foreign keys are on and \<^verbatim>\<open>players.room_id\<close> is declared
  \<^verbatim>\<open>ON DELETE CASCADE\<close>, so the players of the room go with it.
\<close>

definition deleteRoom :: "database \<Rightarrow> string \<Rightarrow> database" where
  "deleteRoom db roomId =
     db\<lparr> rooms_table := (rooms_table db)(roomId := None),
         players_table := filter (\<lambda>row. prow_room_id row \<noteq> roomId) (players_table db) \<rparr>"

text \<open>
  \<^verbatim>\<open>addPlayer\<close> is \<^verbatim>\<open>INSERT OR REPLACE\<close>: a row with the same player id is deleted, and the
  new row is the latest to have joined.
\<close>

definition addPlayer :: "database \<Rightarrow> string \<Rightarrow> Player \<Rightarrow> database" where
  "addPlayer db roomId player =
     db\<lparr> players_table :=
           filter (\<lambda>row. prow_id row \<noteq> player_id player) (players_table db) @
           [\<lparr> prow_id = player_id player, prow_room_id = roomId,
              prow_username = username player, prow_numbers = numbers player \<rparr>] \<rparr>"

definition removePlayer :: "database \<Rightarrow> string \<Rightarrow> database" where
  "removePlayer db playerId =
     db\<lparr> players_table := filter (\<lambda>row. prow_id row \<noteq> playerId) (players_table db) \<rparr>"

definition setHost :: "database \<Rightarrow> string \<Rightarrow> string \<Rightarrow> database" where
  "setHost db roomId hId =
     db\<lparr> rooms_table :=
           (case rooms_table db roomId of
              None \<Rightarrow> rooms_table db
            | Some roomRow \<Rightarrow> (rooms_table db)(roomId \<mapsto> roomRow\<lparr> row_host_id := hId \<rparr>)) \<rparr>"

text \<open>The primary key of \<^verbatim>\<open>players\<close>: no two rows share a player id.\<close>

definition players_key :: "database \<Rightarrow> bool" where
  "players_key db = distinct (map prow_id (players_table db))"

section \<open>The create-room route (routes/rooms.ts)\<close>

text \<open>
  The body fields \<^verbatim>\<open>maxLives\<close> and \<^verbatim>\<open>numbersPerPlayer\<close> are optional with defaults 3 and
  6. A response object sends at most one response: \<^verbatim>\<open>res.json\<close> on a response that was
  already sent throws (the headers cannot be set again). None of the two validation
  branches returns. The result is the database, the response that went out (if any), and
  whether an exception left the handler.
\<close>

datatype response_body = ErrorBody string | CreatedBody string GameRoom

record http_result =
  res_db :: database
  res_sent :: "(int \<times> response_body) option"
  res_uncaught :: bool

text \<open>The \<^verbatim>\<open>catch\<close> block: \<^verbatim>\<open>res.status(500).json({error: "Failed to create room"})\<close>.\<close>

definition createRoomCatch :: "database \<Rightarrow> (int \<times> response_body) option \<Rightarrow> http_result" where
  "createRoomCatch db sent =
     (case sent of
        None \<Rightarrow> \<lparr> res_db = db, res_sent = Some (500, ErrorBody ''Failed to create room''),
                  res_uncaught = False \<rparr>
      | Some r \<Rightarrow> \<lparr> res_db = db, res_sent = Some r, res_uncaught = True \<rparr>)"

definition postCreateRoom ::
  "database \<Rightarrow> string \<Rightarrow> real option \<Rightarrow> int option \<Rightarrow> http_result" where
  "postCreateRoom db roomId bodyMaxLives bodyNumbersPerPlayer =
     (let mLives = (case bodyMaxLives of None \<Rightarrow> 3 | Some v \<Rightarrow> v);
          npp = (case bodyNumbersPerPlayer of None \<Rightarrow> 6 | Some v \<Rightarrow> v);
          sent1 = (if mLives < 1 \<or> mLives > 10
                   then Some (400, ErrorBody ''Max lives must be between 1 and 10'')
                   else None)
      in if (npp < 1 \<or> npp > 20) \<and> sent1 \<noteq> None then createRoomCatch db sent1
         else
           let sent2 = (if npp < 1 \<or> npp > 20
                        then Some (400, ErrorBody ''Numbers per player must be between 1 and 20'')
                        else sent1)
           in case createRoom db roomId mLives npp of
                None \<Rightarrow> createRoomCatch db sent2
              | Some (db1, room) \<Rightarrow>
                  (case sent2 of
                     None \<Rightarrow> \<lparr> res_db = db1, res_sent = Some (200, CreatedBody roomId room),
                               res_uncaught = False \<rparr>
                   | Some r \<Rightarrow> createRoomCatch db1 sent2))"

section \<open>The socket handlers (socket/handlers.ts)\<close>

text \<open>
  The messages of the \<^verbatim>\<open>error\<close> event, one constructor per message: "Room not found",
  "Cannot join game in progress", "Only host can start the game", "Need at least 2
  players to start", "Not enough unique numbers available. Need \<open>n\<close> but only have \<open>m\<close>
  ...", "Failed to start game: ..." with the message of the generator's error, and "Only
  host can reset the game".
\<close>

datatype handler_error =
    RoomNotFound
  | CannotJoinInProgress
  | OnlyHostCanStart
  | NeedTwoPlayers
  | NotEnoughNumbers int int
  | FailedToStart int int
  | OnlyHostCanReset

datatype message =
    RoomUpdated GameRoom
  | GameStateUpdated game_state
  | RoomDeleted string
  | ErrorMessage handler_error
  | LeftRoom

text \<open>
  \<open>ToSocket s m\<close> is \<^verbatim>\<open>socket.emit\<close> on the connection \<open>s\<close>; \<open>ToRoom r m\<close> is
  \<^verbatim>\<open>io.to(r).emit\<close>, which reaches the connections subscribed to the channel \<open>r\<close>. Every
  handler changes the subscriptions before it emits, so a broadcast reaches the
  subscribers of the resulting state.
\<close>

datatype emit = ToSocket string message | ToRoom string message

record server =
  store :: database
  subscriptions :: "(string \<times> string) set"

text \<open>An event id together with the value of \<^verbatim>\<open>Date.now()\<close>.\<close>

type_synonym stamp = "string \<times> int"

subsection \<open>join-room\<close>

definition newPlayer :: "string \<Rightarrow> string \<Rightarrow> Player" where
  "newPlayer socketId playerName =
     \<lparr> player_id = socketId,
       username = (if playerName = [] then ''Anonymous'' else playerName),
       numbers = [] \<rparr>"

text \<open>The room object after \<^verbatim>\<open>room.players.push(player)\<close> and the assignment of the host.\<close>

definition seatPlayer :: "GameRoom \<Rightarrow> string \<Rightarrow> string \<Rightarrow> bool \<Rightarrow> GameRoom" where
  "seatPlayer room socketId playerName isHost =
     (let room1 = room\<lparr> players := players room @ [newPlayer socketId playerName] \<rparr>
      in if isHost \<or> hostId room1 = [] then room1\<lparr> hostId := socketId \<rparr> else room1)"

datatype join_result = JoinRefused | Reconnected | Seated GameRoom

definition joinRoom :: "GameRoom \<Rightarrow> string \<Rightarrow> string \<Rightarrow> bool \<Rightarrow> join_result" where
  "joinRoom room socketId playerName isHost =
     (if state room = Playing \<and> find (\<lambda>p. player_id p = socketId) (players room) = None
      then JoinRefused
      else case find (\<lambda>p. player_id p = socketId) (players room) of
             Some existingPlayer \<Rightarrow> Reconnected
           | None \<Rightarrow> Seated (seatPlayer room socketId playerName isHost))"

definition snapshot :: "string \<Rightarrow> string \<Rightarrow> GameRoom \<Rightarrow> emit list" where
  "snapshot socketId roomId room =
     ToRoom roomId (RoomUpdated room) #
     (if state room \<noteq> Lobby then [ToSocket socketId (GameStateUpdated (getGameState room))]
      else [])"

definition joinRoomHandler ::
  "server \<Rightarrow> string \<Rightarrow> string \<Rightarrow> string \<Rightarrow> bool \<Rightarrow> server \<times> emit list" where
  "joinRoomHandler srv socketId roomId playerName isHost =
     (case getRoom (store srv) roomId of
        None \<Rightarrow> (srv, [ToSocket socketId (ErrorMessage RoomNotFound)])
      | Some room \<Rightarrow>
          (case joinRoom room socketId playerName isHost of
             JoinRefused \<Rightarrow> (srv, [ToSocket socketId (ErrorMessage CannotJoinInProgress)])
           | Reconnected \<Rightarrow>
               (srv\<lparr> subscriptions := insert (socketId, roomId) (subscriptions srv) \<rparr>,
                snapshot socketId roomId room)
           | Seated room2 \<Rightarrow>
               (let db1 = addPlayer (store srv) roomId (newPlayer socketId playerName);
                    db2 = (if isHost \<or> hostId room = [] then setHost db1 roomId socketId
                           else db1);
                    db3 = updateRoom db2 room2
                in (\<lparr> store = db3,
                      subscriptions = insert (socketId, roomId) (subscriptions srv) \<rparr>,
                    snapshot socketId roomId room2))))"

subsection \<open>start-game\<close>



subsection \<open>play-number\<close>

text \<open>
  \<^verbatim>\<open>makeMove\<close> is called whatever the state of the room and whoever sends the event; the
  events are then logged from its result descriptor.
\<close>

definition playNumber :: "GameRoom \<Rightarrow> string \<Rightarrow> int \<Rightarrow> stamp \<Rightarrow> stamp \<Rightarrow> GameRoom" where
  "playNumber room socketId number st1 st2 =
     (case makeMove room socketId number of
        (room1, result) \<Rightarrow>
          (let player = find (\<lambda>p. player_id p = socketId) (players room1)
           in if success result then
                (let room2 = addGameEvent room1 (fst st1) MoveMade
                               (MoveData socketId (map_option username player) number
                                  (timeline room1)) (snd st1)
                 in if victory result = Some True
                    then addGameEvent room2 (fst st2) GameEnded
                           (EndData ''victory'' ''Congratulations! You completed the sequence!'')
                           (snd st2)
                    else room2)
              else
                (let room2 = addGameEvent room1 (fst st1) MoveFailed
                               (FailData socketId (map_option username player) number
                                  (error result) (livesLost result) (lives room1)) (snd st1)
                 in if gameOver result = Some True
                    then addGameEvent room2 (fst st2) GameEnded
                           (EndData ''defeat'' ''Game Over! You ran out of lives.'') (snd st2)
                    else room2)))"

definition broadcastState :: "string \<Rightarrow> GameRoom \<Rightarrow> emit list" where
  "broadcastState roomId room =
     [ToRoom roomId (RoomUpdated room), ToRoom roomId (GameStateUpdated (getGameState room))]"

definition playNumberHandler ::
  "server \<Rightarrow> string \<Rightarrow> string \<Rightarrow> int \<Rightarrow> stamp \<Rightarrow> stamp \<Rightarrow> server \<times> emit list" where
  "playNumberHandler srv socketId roomId number st1 st2 =
     (case getRoom (store srv) roomId of
        None \<Rightarrow> (srv, [ToSocket socketId (ErrorMessage RoomNotFound)])
      | Some room \<Rightarrow>
          (let room2 = playNumber room socketId number st1 st2
           in (srv\<lparr> store := updateRoom (store srv) room2 \<rparr>, broadcastState roomId room2)))"

subsection \<open>reset-game\<close>

definition resetRoom :: "GameRoom \<Rightarrow> string \<Rightarrow> stamp \<Rightarrow> handler_error + GameRoom" where
  "resetRoom room socketId st =
     (if hostId room \<noteq> socketId then Inl OnlyHostCanReset
      else Inr (addGameEvent (resetGame room) (fst st) GameReset
                  (MessageData ''Game has been reset'') (snd st)))"

definition resetGameHandler :: "server \<Rightarrow> string \<Rightarrow> string \<Rightarrow> stamp \<Rightarrow> server \<times> emit list" where
  "resetGameHandler srv socketId roomId st =
     (case getRoom (store srv) roomId of
        None \<Rightarrow> (srv, [ToSocket socketId (ErrorMessage RoomNotFound)])
      | Some room \<Rightarrow>
          (case resetRoom room socketId st of
             Inl e \<Rightarrow> (srv, [ToSocket socketId (ErrorMessage e)])
           | Inr room2 \<Rightarrow>
               (srv\<lparr> store := updateRoom (store srv) room2 \<rparr>, broadcastState roomId room2)))"

subsection \<open>leave-room, disconnect and handlePlayerLeave\<close>

text \<open>
  What \<^verbatim>\<open>handlePlayerLeave\<close> does to the loaded room: the host leaving a lobby deletes the
  room, a room left empty is deleted, and otherwise the room goes on, with
  \<^verbatim>\<open>players[0]\<close> as the host if the host left.
\<close>

datatype leave_result = HostLeftLobby | RoomEmpty | Survives GameRoom

definition leaveRoom :: "GameRoom \<Rightarrow> string \<Rightarrow> leave_result" where
  "leaveRoom room socketId =
     (let isHost = (hostId room = socketId);
          wasInLobby = (state room = Lobby);
          room1 = room\<lparr> players := filter (\<lambda>p. player_id p \<noteq> socketId) (players room) \<rparr>
      in if isHost \<and> wasInLobby then HostLeftLobby
         else if length (players room1) = 0 then RoomEmpty
         else if isHost \<and> length (players room1) > 0
              then Survives (room1\<lparr> hostId := player_id (players room1 ! 0) \<rparr>)
              else Survives room1)"

text \<open>
  \<^verbatim>\<open>handlePlayerLeave(socketId, roomId, io)\<close>: without a room id (\<^verbatim>\<open>undefined\<close>, or the empty
  string, which is falsy as well) the function returns at once.
\<close>

definition handlePlayerLeave :: "server \<Rightarrow> string \<Rightarrow> string option \<Rightarrow> server \<times> emit list" where
  "handlePlayerLeave srv socketId roomIdOpt =
     (case roomIdOpt of
        None \<Rightarrow> (srv, [])
      | Some roomId \<Rightarrow>
          (if roomId = [] then (srv, [])
           else (case getRoom (store srv) roomId of
                   None \<Rightarrow> (srv, [])
                 | Some room \<Rightarrow>
                     (let db1 = removePlayer (store srv) socketId
                      in (case leaveRoom room socketId of
                            HostLeftLobby \<Rightarrow>
                              (srv\<lparr> store := deleteRoom db1 roomId \<rparr>,
                               [ToRoom roomId (RoomDeleted ''Host left during lobby'')])
                          | RoomEmpty \<Rightarrow> (srv\<lparr> store := deleteRoom db1 roomId \<rparr>, [])
                          | Survives room2 \<Rightarrow>
                              (let db2 = (if hostId room = socketId
                                          then setHost db1 roomId (hostId room2) else db1)
                               in (srv\<lparr> store := updateRoom db2 room2 \<rparr>,
                                   ToRoom roomId (RoomUpdated room2) #
                                   (if state room2 \<noteq> Lobby
                                    then [ToRoom roomId (GameStateUpdated (getGameState room2))]
                                    else []))))))))"

definition leaveRoomHandler :: "server \<Rightarrow> string \<Rightarrow> string \<Rightarrow> server \<times> emit list" where
  "leaveRoomHandler srv socketId roomId =
     (let srv1 = srv\<lparr> subscriptions := subscriptions srv - {(socketId, roomId)} \<rparr>
      in case handlePlayerLeave srv1 socketId (Some roomId) of
           (srv2, emits) \<Rightarrow> (srv2, emits @ [ToSocket socketId LeftRoom]))"

text \<open>
  The \<^verbatim>\<open>disconnect\<close> event carries no room id: the handler calls
  \<^verbatim>\<open>handlePlayerLeave(socket.id, undefined, io)\<close>. The connection itself is gone from every
  channel.
\<close>

definition disconnectHandler :: "server \<Rightarrow> string \<Rightarrow> server \<times> emit list" where
  "disconnectHandler srv socketId =
     handlePlayerLeave
       (srv\<lparr> subscriptions := Set.filter (\<lambda>(s, r). s \<noteq> socketId) (subscriptions srv) \<rparr>)
       socketId None"

section \<open>Sequences of operations on one room\<close>




section \<open>Predicates of the statements\<close>

text \<open>
  \<^verbatim>\<open>Math.random()\<close> returns a value in \<open>[0, 1)\<close>; \<open>unitDraws rs\<close> says so of every value of
  the sequence \<open>rs\<close>. \<open>drawnNumber rangeSize mn r\<close> is the number the sampling loop
  computes from the random value \<open>r\<close>.
\<close>

definition unitDraws :: "real list \<Rightarrow> bool" where
  "unitDraws rs = list_all (\<lambda>r. 0 \<le> r \<and> r < 1) rs"


text \<open>
  The conditions of a valid move, in the words of the specification: a player with the id
  is seated; that player (the first with the id, ids being unique in a loaded room) holds
  the number; the number is the least of the numbers in the hands that are not on the
  timeline.
\<close>

definition seated :: "GameRoom \<Rightarrow> string \<Rightarrow> bool" where
  "seated room playerId = list_ex (\<lambda>p. player_id p = playerId) (players room)"

definition holdsNumber :: "GameRoom \<Rightarrow> string \<Rightarrow> int \<Rightarrow> bool" where
  "holdsNumber room playerId number =
     (case find (\<lambda>p. player_id p = playerId) (players room) of
        None \<Rightarrow> False
      | Some player \<Rightarrow> number \<in> set (numbers player))"

definition unplayedNumbers :: "GameRoom \<Rightarrow> int list" where
  "unplayedNumbers room =
     filter (\<lambda>m. m \<notin> set (timeline room)) (concat (map numbers (players room)))"

definition isExpectedNext :: "GameRoom \<Rightarrow> int \<Rightarrow> bool" where
  "isExpectedNext room number =
     (number \<in> set (unplayedNumbers room) \<and> (\<forall>m \<in> set (unplayedNumbers room). number \<le> m))"

text \<open>
  The rows of the players of a room carry the ids and names of the players of a room
  object, in the same order.
\<close>

definition sameSeats :: "database \<Rightarrow> string \<Rightarrow> GameRoom \<Rightarrow> bool" where
  "sameSeats db roomId room =
     (map (\<lambda>p. (player_id p, username p)) (players room) =
      map (\<lambda>row. (prow_id row, prow_username row))
        (filter (\<lambda>row. prow_room_id row = roomId) (players_table db)))"

text \<open>
  Two room objects with the same id, configuration and seats (ids and names of the
  players, in order): what \<^verbatim>\<open>updateRoom\<close> does not write.
\<close>

definition sameFrame :: "GameRoom \<Rightarrow> GameRoom \<Rightarrow> bool" where
  "sameFrame room room2 =
     (room_id room2 = room_id room \<and> maxLives room2 = maxLives room \<and>
      numbersPerPlayer room2 = numbersPerPlayer room \<and>
      map (\<lambda>p. (player_id p, username p)) (players room2) =
      map (\<lambda>p. (player_id p, username p)) (players room))"




section \<open>Concrete rooms and inputs\<close>




text \<open>A game in progress: Ann holds 1 and 3, Bob holds 2 and 4, three lives.\<close>

definition demoRoom :: GameRoom where
  "demoRoom =
     \<lparr> room_id = ''ROOM01'',
       players = [\<lparr> player_id = ''a'', username = ''Ann'', numbers = [1, 3] \<rparr>,
                  \<lparr> player_id = ''b'', username = ''Bob'', numbers = [2, 4] \<rparr>],
       timeline = [], lives = 3, maxLives = 3, numbersPerPlayer = 2,
       state = Playing, hostId = ''a'', gameEvents = [] \<rparr>"

text \<open>The same game in a room whose lives are already at 0.\<close>

definition lastLifeRoom :: GameRoom where
  "lastLifeRoom = demoRoom\<lparr> lives := 0, maxLives := 0 \<rparr>"

text \<open>
  A store that holds the room of the game above in the state \<open>s\<close>, and a server on it with
  both players subscribed.
\<close>

definition demoStoreIn :: "room_state \<Rightarrow> database" where
  "demoStoreIn s =
     \<lparr> rooms_table =
         [''ROOM01'' \<mapsto> \<lparr> row_max_lives = 3, row_numbers_per_player = 2, row_lives = 3,
                         row_state = s, row_host_id = ''a'', row_timeline = [],
                         row_game_events = [] \<rparr>],
       players_table =
         [\<lparr> prow_id = ''a'', prow_room_id = ''ROOM01'', prow_username = ''Ann'',
            prow_numbers = [1, 3] \<rparr>,
          \<lparr> prow_id = ''b'', prow_room_id = ''ROOM01'', prow_username = ''Bob'',
            prow_numbers = [2, 4] \<rparr>] \<rparr>"

definition demoServerIn :: "room_state \<Rightarrow> server" where
  "demoServerIn s =
     \<lparr> store = demoStoreIn s,
       subscriptions = {(''a'', ''ROOM01''), (''b'', ''ROOM01'')} \<rparr>"

definition emptyStore :: database where
  "emptyStore = \<lparr> rooms_table = Map.empty, players_table = [] \<rparr>"

text \<open>A finished game with a single player left in the room.\<close>

definition soloServer :: server where
  "soloServer =
     \<lparr> store =
         \<lparr> rooms_table =
             [''ROOM02'' \<mapsto> \<lparr> row_max_lives = 3, row_numbers_per_player = 2, row_lives = 2,
                             row_state = GameOver, row_host_id = ''a'', row_timeline = [5],
                             row_game_events = [] \<rparr>],
           players_table =
             [\<lparr> prow_id = ''z'', prow_room_id = ''ROOM02'', prow_username = ''Zoe'',
                prow_numbers = [7] \<rparr>] \<rparr>,
       subscriptions = {(''z'', ''ROOM02'')} \<rparr>"



text \<open>The game above in a room created with \<open>- 2 ^ 53\<close> lives.\<close>

definition overdrawnRoom :: GameRoom where
  "overdrawnRoom = demoRoom\<lparr> lives := - (2 ^ 53), maxLives := - (2 ^ 53) \<rparr>"

text \<open>The game above in a room created with a life and a half.\<close>

definition halfLifeRoom :: GameRoom where
  "halfLifeRoom = demoRoom\<lparr> lives := 3 / 2, maxLives := 3 / 2 \<rparr>"


section \<open>The numbers of a deal along a sequence of operations\<close>







section \<open>Lemmas on binary64 arithmetic\<close>

lemma roundHalfEven_of_int: "roundHalfEven (of_int k) = k"
  by (simp add: roundHalfEven_def)

lemma roundHalfEven_near: "\<bar>of_int (roundHalfEven r) - r\<bar> \<le> 1 / 2"
  unfolding roundHalfEven_def Let_def by (auto; linarith)

lemma nearestDouble_binade:
  assumes "2 powr of_int e \<le> \<bar>x\<bar>" and "\<bar>x\<bar> < 2 powr of_int (e + 1)" and "- 1022 \<le> e"
  shows "nearestDouble x =
           of_int (roundHalfEven (x / 2 powr of_int (e - 52))) * 2 powr of_int (e - 52)"
proof -
  have pos: "0 < \<bar>x\<bar>" using assms(1) by (smt (verit) powr_gt_zero)
  then have "\<lfloor>log 2 \<bar>x\<bar>\<rfloor> = e"
    using assms(1,2) by (simp add: floor_log_eq_powr_iff)
  with pos assms(3) show ?thesis by (simp add: nearestDouble_def max_def Let_def)
qed

lemma nearestDouble_int:
  assumes "\<bar>n\<bar> \<le> 2 ^ 53"
  shows "nearestDouble (of_int n) = of_int n"
proof (cases "n = 0")
  case True
  then show ?thesis by (simp add: nearestDouble_def)
next
  case False
  define x :: real where "x = of_int n"
  define e where "e = \<lfloor>log 2 \<bar>x\<bar>\<rfloor>"
  have x1: "1 \<le> \<bar>x\<bar>" using False by (simp add: x_def)
  have xu: "\<bar>x\<bar> \<le> 2 ^ 53" using assms unfolding x_def
    by (metis of_int_abs of_int_le_iff of_int_numeral of_int_power)
  have b: "2 powr of_int e \<le> \<bar>x\<bar>" "\<bar>x\<bar> < 2 powr of_int (e + 1)"
    using floor_log_eq_powr_iff [of "\<bar>x\<bar>" 2 e] x1 by (simp_all add: e_def)
  have e0: "0 \<le> e" using x1 by (simp add: e_def)
  have "\<bar>x\<bar> \<le> 2 powr 53" using xu by simp
  then have "log 2 \<bar>x\<bar> \<le> 53" using x1 by (simp add: log_le_iff)
  then have e53: "e \<le> 53" unfolding e_def by linarith
  note nd = nearestDouble_binade [OF b] 
  show ?thesis
  proof (cases "e \<le> 52")
    case True
    have p: "(2::real) powr (52 - of_int e) = 2 ^ nat (52 - e)"
      using True powr_real_of_int [of "2::real" "52 - e"] by simp
    have "x / 2 powr of_int (e - 52) = x * 2 powr of_int (52 - e)"
      by (simp add: powr_diff field_simps)
    also have "\<dots> = of_int (n * 2 ^ nat (52 - e))"
      by (simp add: x_def p)
    finally have "roundHalfEven (x / 2 powr of_int (e - 52)) = n * 2 ^ nat (52 - e)"
      by (simp only: roundHalfEven_of_int)
    then have "nearestDouble x = of_int (n * 2 ^ nat (52 - e)) * 2 powr of_int (e - 52)"
      using nd e0 by simp
    also have "\<dots> = x * (2 powr of_int (52 - e) * 2 powr of_int (e - 52))"
      by (simp add: x_def p)
    also have "2 powr of_int (52 - e) * 2 powr of_int (e - 52) = (1::real)"
      by (simp flip: powr_add)
    finally show ?thesis by (simp add: x_def)
  next
    case False
    with e53 have e: "e = 53" by simp
    from b(1) xu have "\<bar>x\<bar> = 2 ^ 53" by (simp add: e)
    then have "\<bar>n\<bar> = 2 ^ 53" unfolding x_def
      by (metis of_int_abs of_int_eq_iff of_int_numeral of_int_power)
    then have ev: "even n" by (metis abs_minus_cancel dvd_abs_iff even_numeral even_power zero_less_numeral)
    then obtain k where k: "n = 2 * k" by (elim evenE)
    have "x / 2 powr of_int (e - 52) = of_int k" by (simp add: e x_def k)
    then have "roundHalfEven (x / 2 powr of_int (e - 52)) = k"
      by (simp only: roundHalfEven_of_int)
    then have "nearestDouble x = of_int k * 2 powr of_int (e - 52)" using nd e0 by simp
    then show ?thesis by (simp add: e x_def k)
  qed
qed


lemma decrement_int:
  assumes "- (2 ^ 53) < n" and "n \<le> 2 ^ 53"
  shows "decrement (of_int n) = of_int n - 1"
proof -
  have "\<bar>n - 1\<bar> \<le> 2 ^ 53" using assms by simp
  from nearestDouble_int [OF this] show ?thesis by (simp add: decrement_def)
qed

lemma decrement_absorbed: "decrement (- (2 ^ 53)) = - (2 ^ 53)"
proof -
  have b: "2 powr of_int 53 \<le> \<bar>- (2 ^ 53) - 1 :: real\<bar>"
    "\<bar>- (2 ^ 53) - 1 :: real\<bar> < 2 powr of_int (53 + 1)"
    by simp_all
  have r: "roundHalfEven ((- (2 ^ 53) - 1) / 2 powr of_int (53 - 52)) = - (2 ^ 52)"
    by (simp add: roundHalfEven_def)
  from nearestDouble_binade [OF b] r show ?thesis
    by (simp add: decrement_def)
qed


lemma nearestDouble_half:
  assumes "\<bar>y\<bar> < 2 ^ 53"
  shows "\<bar>nearestDouble y - y\<bar> \<le> 1 / 2"
proof (cases "y = 0")
  case True
  then show ?thesis by (simp add: nearestDouble_def)
next
  case False
  define e where "e = max \<lfloor>log 2 \<bar>y\<bar>\<rfloor> (- 1022)"
  define ulp :: real where "ulp = 2 powr of_int (e - 52)"
  have "\<bar>y\<bar> < 2 powr 53" using assms by simp
  then have "log 2 \<bar>y\<bar> < 53" using False by (simp add: log_less_iff)
  then have "\<lfloor>log 2 \<bar>y\<bar>\<rfloor> \<le> 52" by linarith
  then have "e \<le> 52" by (simp add: e_def)
  then have "ulp \<le> 2 powr 0" unfolding ulp_def by (intro powr_mono) simp_all
  then have u1: "ulp \<le> 1" by simp
  have u0: "0 < ulp" by (simp add: ulp_def)
  have nd: "nearestDouble y = of_int (roundHalfEven (y / ulp)) * ulp"
    using False by (simp add: nearestDouble_def e_def ulp_def Let_def)
  have "nearestDouble y - y = (of_int (roundHalfEven (y / ulp)) - y / ulp) * ulp"
    using u0 by (simp add: nd field_simps)
  then have "\<bar>nearestDouble y - y\<bar> = \<bar>of_int (roundHalfEven (y / ulp)) - y / ulp\<bar> * ulp"
    using u0 by (simp add: abs_mult)
  also have "\<dots> \<le> 1 / 2 * ulp"
    using roundHalfEven_near [of "y / ulp"] u0 by (intro mult_right_mono) simp_all
  also have "\<dots> \<le> 1 / 2" using u1 by simp
  finally show ?thesis .
qed

lemma decrement_lowers:
  assumes "\<bar>x - 1\<bar> < 2 ^ 53"
  shows "x - 3 / 2 \<le> decrement x" and "decrement x \<le> x - 1 / 2"
proof -
  from nearestDouble_half [OF assms]
  have "\<bar>nearestDouble (x - 1) - (x - 1)\<bar> \<le> 1 / 2" .
  then show "x - 3 / 2 \<le> decrement x" and "decrement x \<le> x - 1 / 2"
    unfolding decrement_def by linarith+
qed

lemma decrement_small:
  "decrement 3 = 2" "decrement 2 = 1" "decrement 1 = 0" "decrement 0 = - 1"
  using decrement_int [of 3] decrement_int [of 2] decrement_int [of 1] decrement_int [of 0]
  by simp_all

lemma nearestDouble_half_value:
  "nearestDouble (1 / 2) = 1 / 2" "nearestDouble (- (1 / 2)) = - (1 / 2)"
proof -
  have p: "(2::real) powr of_int (- 1 - 52) = 1 / 2 ^ 53"
    using powr_real_of_int [of "2::real" "- 53"] by (simp add: field_simps)
  have q: "(2::real) powr of_int (- 1) = 1 / 2" "(2::real) powr of_int (- 1 + 1) = 1"
    by (simp_all add: powr_minus field_simps)
  have b: "2 powr of_int (- 1) \<le> \<bar>1 / 2 :: real\<bar>" "\<bar>1 / 2 :: real\<bar> < 2 powr of_int (- 1 + 1)"
    "2 powr of_int (- 1) \<le> \<bar>- (1 / 2) :: real\<bar>" "\<bar>- (1 / 2) :: real\<bar> < 2 powr of_int (- 1 + 1)"
    unfolding q by simp_all
  have "(1 / 2) / (2::real) powr of_int (- 1 - 52) = of_int (2 ^ 52)"
    "(- (1 / 2)) / (2::real) powr of_int (- 1 - 52) = of_int (- (2 ^ 52))"
    unfolding p by simp_all
  then have r: "roundHalfEven ((1 / 2) / (2::real) powr of_int (- 1 - 52)) = 2 ^ 52"
    "roundHalfEven ((- (1 / 2)) / (2::real) powr of_int (- 1 - 52)) = - (2 ^ 52)"
    by (simp_all only: roundHalfEven_of_int)
  have "nearestDouble (1 / 2) =
      of_int (roundHalfEven ((1 / 2) / 2 powr of_int (- 1 - 52))) * 2 powr of_int (- 1 - 52)"
    by (rule nearestDouble_binade [OF b(1,2)]) simp
  also have "\<dots> = of_int (2 ^ 52) * (1 / 2 ^ 53)" by (simp only: r, simp only: p)
  also have "\<dots> = 1 / 2" by simp
  finally show "nearestDouble (1 / 2) = 1 / 2" .
  have "nearestDouble (- (1 / 2)) =
      of_int (roundHalfEven ((- (1 / 2)) / 2 powr of_int (- 1 - 52))) * 2 powr of_int (- 1 - 52)"
    by (rule nearestDouble_binade [OF b(3,4)]) simp
  also have "\<dots> = of_int (- (2 ^ 52)) * (1 / 2 ^ 53)" by (simp only: r, simp only: p)
  also have "\<dots> = - (1 / 2)" by simp
  finally show "nearestDouble (- (1 / 2)) = - (1 / 2)" .
qed

lemma decrement_half: "decrement (3 / 2) = 1 / 2" "decrement (1 / 2) = - (1 / 2)"
  by (simp_all add: decrement_def nearestDouble_half_value)

section \<open>Lemmas on the game engine\<close>

lemma find_sorted_least:
  "sorted ys \<Longrightarrow> find P ys = Some x \<Longrightarrow> P x \<and> x \<in> set ys \<and> (\<forall>m \<in> set ys. P m \<longrightarrow> x \<le> m)"
  by (induction ys) (auto split: if_splits)

lemma find_None_set: "find P ys = None \<longleftrightarrow> (\<forall>y \<in> set ys. \<not> P y)"
  by (induction ys) auto

lemma getNextExpectedNumber_least:
  assumes "number \<in> set (unplayedNumbers room)"
  shows "getNextExpectedNumber room \<in> set (unplayedNumbers room) \<and>
         (\<forall>m \<in> set (unplayedNumbers room). getNextExpectedNumber room \<le> m)"
proof -
  let ?ys = "sort (concat (map numbers (players room)))"
  let ?P = "\<lambda>num. num \<notin> set (timeline room)"
  have "\<exists>y \<in> set ?ys. ?P y"
    using assms by (auto simp: unplayedNumbers_def)
  then obtain x where x: "find ?P ?ys = Some x"
    using find_None_set [of ?P ?ys] by (cases "find ?P ?ys") auto
  have "sorted ?ys" by simp
  from find_sorted_least [OF this x]
  have "?P x \<and> x \<in> set ?ys \<and> (\<forall>m \<in> set ?ys. ?P m \<longrightarrow> x \<le> m)" .
  moreover have "getNextExpectedNumber room = x"
    using x by (simp add: getNextExpectedNumber_def)
  ultimately show ?thesis
    by (auto simp: unplayedNumbers_def)
qed

lemma isExpectedNext_iff:
  assumes "number \<in> set (unplayedNumbers room)"
  shows "isExpectedNext room number \<longleftrightarrow> number = getNextExpectedNumber room"
  using getNextExpectedNumber_least [OF assms] assms
  by (auto simp: isExpectedNext_def intro: antisym)

lemma holdsNumber_unplayed:
  "holdsNumber room playerId number \<Longrightarrow> number \<notin> set (timeline room) \<Longrightarrow>
   number \<in> set (unplayedNumbers room)"
  by (auto simp: holdsNumber_def unplayedNumbers_def find_Some_iff split: option.splits)

lemma seated_find:
  "seated room playerId \<longleftrightarrow> find (\<lambda>p. player_id p = playerId) (players room) \<noteq> None"
  by (auto simp: seated_def list_ex_iff find_None_set)

lemma validateMove_cascade:
  "validateMove room playerId number =
     (if state room \<noteq> Playing then Invalid NotPlaying
      else if \<not> seated room playerId then Invalid PlayerNotFound
      else if \<not> holdsNumber room playerId number then Invalid NotHeld
      else if number \<in> set (timeline room) then Invalid AlreadyPlayed
      else if \<not> isExpectedNext room number
           then Invalid (OutOfOrder (getNextExpectedNumber room) number)
      else Valid)"
proof (cases "holdsNumber room playerId number \<and> number \<notin> set (timeline room)")
  case True
  then have "isExpectedNext room number \<longleftrightarrow> number = getNextExpectedNumber room"
    using isExpectedNext_iff holdsNumber_unplayed by blast
  then show ?thesis
    by (auto simp: validateMove_def seated_find holdsNumber_def Let_def split: option.splits)
next
  case False
  then show ?thesis
    by (auto simp: validateMove_def seated_find holdsNumber_def Let_def split: option.splits)
qed

lemma updateFirst_nth:
  "find P xs = Some x \<Longrightarrow>
   \<exists>i<length xs. P (xs ! i) \<and> (\<forall>j<i. \<not> P (xs ! j)) \<and> x = xs ! i \<and>
      updateFirst P f xs = xs[i := f (xs ! i)]"
proof (induction xs)
  case Nil
  then show ?case by simp
next
  case (Cons y ys)
  show ?case
  proof (cases "P y")
    case True
    with Cons.prems show ?thesis by (intro exI [of _ 0]) simp
  next
    case False
    with Cons.prems have "find P ys = Some x" by simp
    from Cons.IH [OF this] obtain i where i: "i < length ys" "P (ys ! i)"
      "\<forall>j<i. \<not> P (ys ! j)" "x = ys ! i" "updateFirst P f ys = ys[i := f (ys ! i)]"
      by blast
    show ?thesis
    proof (intro exI [of _ "Suc i"] conjI)
      show "\<forall>j<Suc i. \<not> P ((y # ys) ! j)"
        using False i(3) by (auto simp: nth_Cons split: nat.splits)
    qed (use False i in simp_all)
  qed
qed

lemma validateMove_Valid_find:
  "validateMove room playerId number = Valid \<Longrightarrow>
   state room = Playing \<and> (\<exists>p. find (\<lambda>p. player_id p = playerId) (players room) = Some p)"
  by (auto simp: validateMove_def Let_def split: if_splits option.splits)

lemma unitDraws_Cons [simp]: "unitDraws (r # rs) \<longleftrightarrow> 0 \<le> r \<and> r < 1 \<and> unitDraws rs"
  by (simp add: unitDraws_def)

lemma unitDraws_Nil [simp]: "unitDraws []"
  by (simp add: unitDraws_def)

lemma unitDraws_append [simp]: "unitDraws (rs @ rs') \<longleftrightarrow> unitDraws rs \<and> unitDraws rs'"
  by (simp add: unitDraws_def)














lemma slice_Nil [simp]: "slice [] s e = []"
  by (simp add: slice_def Let_def)
















section \<open>Lemmas on the room store\<close>

lemma find_unique:
  "x \<in> set ys \<Longrightarrow> P x \<Longrightarrow> (\<forall>y \<in> set ys. P y \<longrightarrow> y = x) \<Longrightarrow> find P ys = Some x"
proof (induction ys)
  case Nil
  then show ?case by simp
next
  case (Cons y ys)
  show ?case
  proof (cases "P y")
    case True
    with Cons.prems(3) have "y = x" by simp
    with True show ?thesis by simp
  next
    case False
    with Cons.prems have "x \<in> set ys" by auto
    from Cons.IH [OF this Cons.prems(2)] Cons.prems(3) False show ?thesis by simp
  qed
qed

lemma foldl_updatePlayerNumbers:
  "foldl updatePlayerNumbers rows ps =
     map (\<lambda>row. case find (\<lambda>p. player_id p = prow_id row) (rev ps) of
                  None \<Rightarrow> row
                | Some p \<Rightarrow> row\<lparr> prow_numbers := numbers p \<rparr>) rows"
proof (induction ps rule: rev_induct)
  case Nil
  then show ?case by simp
next
  case (snoc p ps)
  let ?g = "\<lambda>row. case find (\<lambda>p. player_id p = prow_id row) (rev ps) of
                  None \<Rightarrow> row
                | Some p \<Rightarrow> row\<lparr> prow_numbers := numbers p \<rparr>"
  have id: "prow_id (?g row) = prow_id row" for row
    by (simp split: option.splits)
  have "foldl updatePlayerNumbers rows (ps @ [p]) =
        updatePlayerNumbers (foldl updatePlayerNumbers rows ps) p"
    by simp
  also have "\<dots> = updatePlayerNumbers (map ?g rows) p"
    by (simp only: snoc)
  also have "\<dots> = map (\<lambda>row. if prow_id row = player_id p
                               then (?g row)\<lparr> prow_numbers := numbers p \<rparr> else ?g row) rows"
    unfolding updatePlayerNumbers_def map_map comp_def id ..
  also have "\<dots> = map (\<lambda>row. case find (\<lambda>q. player_id q = prow_id row) (rev (ps @ [p])) of
                  None \<Rightarrow> row
                | Some q \<Rightarrow> row\<lparr> prow_numbers := numbers q \<rparr>) rows"
    by (rule map_cong) (auto split: option.splits)
  finally show ?case .
qed

lemma filter_room_updated:
  "filter (\<lambda>row. prow_room_id row = roomId) (foldl updatePlayerNumbers rows ps) =
   map (\<lambda>row. case find (\<lambda>p. player_id p = prow_id row) (rev ps) of
                  None \<Rightarrow> row
                | Some p \<Rightarrow> row\<lparr> prow_numbers := numbers p \<rparr>)
     (filter (\<lambda>row. prow_room_id row = roomId) rows)"
  unfolding foldl_updatePlayerNumbers
  by (induction rows) (auto split: option.splits)

lemma players_after_update:
  assumes ids: "map (\<lambda>p. (player_id p, username p)) ps =
                map (\<lambda>row. (prow_id row, prow_username row)) rs"
    and key: "distinct (map prow_id rs)"
  shows "map toPlayer
           (map (\<lambda>row. case find (\<lambda>p. player_id p = prow_id row) (rev ps) of
                          None \<Rightarrow> row
                        | Some p \<Rightarrow> row\<lparr> prow_numbers := numbers p \<rparr>) rs) = ps"
proof (rule nth_equalityI)
  have len: "length ps = length rs" using ids by (metis length_map)
  then show "length (map toPlayer
           (map (\<lambda>row. case find (\<lambda>p. player_id p = prow_id row) (rev ps) of
                          None \<Rightarrow> row
                        | Some p \<Rightarrow> row\<lparr> prow_numbers := numbers p \<rparr>) rs)) = length ps"
    by simp
  have idmap: "map player_id ps = map prow_id rs"
  proof -
    have "map fst (map (\<lambda>p. (player_id p, username p)) ps) =
          map fst (map (\<lambda>row. (prow_id row, prow_username row)) rs)"
      by (simp only: ids)
    then show ?thesis by (simp add: comp_def)
  qed
  then have dps: "distinct (map player_id ps)" using key by simp
  fix i
  assume "i < length (map toPlayer
           (map (\<lambda>row. case find (\<lambda>p. player_id p = prow_id row) (rev ps) of
                          None \<Rightarrow> row
                        | Some p \<Rightarrow> row\<lparr> prow_numbers := numbers p \<rparr>) rs))"
  then have i: "i < length rs" "i < length ps" using len by simp_all
  have pair: "(player_id (ps ! i), username (ps ! i)) = (prow_id (rs ! i), prow_username (rs ! i))"
    using arg_cong [OF ids, of "\<lambda>xs. xs ! i"] i by simp
  have uniq: "\<forall>y \<in> set (rev ps). player_id y = prow_id (rs ! i) \<longrightarrow> y = ps ! i"
  proof (intro ballI impI)
    fix y assume "y \<in> set (rev ps)" and y: "player_id y = prow_id (rs ! i)"
    then obtain j where j: "j < length ps" "y = ps ! j" by (auto simp: in_set_conv_nth)
    have "map player_id ps ! j = map player_id ps ! i" using j i y pair by simp
    with dps j i have "j = i"
      by (metis length_map nth_eq_iff_index_eq)
    with j show "y = ps ! i" by simp
  qed
  have "find (\<lambda>p. player_id p = prow_id (rs ! i)) (rev ps) = Some (ps ! i)"
    by (rule find_unique) (use i pair uniq in auto)
  then show "map toPlayer
           (map (\<lambda>row. case find (\<lambda>p. player_id p = prow_id row) (rev ps) of
                          None \<Rightarrow> row
                        | Some p \<Rightarrow> row\<lparr> prow_numbers := numbers p \<rparr>) rs) ! i = ps ! i"
    using i pair by (simp add: toPlayer_def)
qed

lemma getRoom_updateRoom:
  assumes key: "players_key db"
    and row: "rooms_table db roomId = Some roomRow"
    and rid: "room_id room = roomId"
    and cfg: "maxLives room = row_max_lives roomRow"
             "numbersPerPlayer room = row_numbers_per_player roomRow"
    and seats: "sameSeats db roomId room"
  shows "getRoom (updateRoom db room) roomId = Some room"
proof -
  let ?rs = "filter (\<lambda>row. prow_room_id row = roomId) (players_table db)"
  have "distinct (map prow_id ?rs)"
    using key by (simp add: players_key_def distinct_map_filter)
  with seats have "map toPlayer
       (filter (\<lambda>row. prow_room_id row = roomId)
          (foldl updatePlayerNumbers (players_table db) (players room))) = players room"
    unfolding filter_room_updated sameSeats_def by (rule players_after_update)
  with row rid cfg show ?thesis
    by (simp add: getRoom_def updateRoom_def)
qed

section \<open>Lemmas on the handlers and the store\<close>

lemma sameFrame_refl [simp]: "sameFrame room room"
  by (simp add: sameFrame_def)

lemma sameFrame_trans: "sameFrame a b \<Longrightarrow> sameFrame b c \<Longrightarrow> sameFrame a c"
  by (simp add: sameFrame_def)

lemma getRoom_SomeD:
  assumes "getRoom db roomId = Some room"
  obtains roomRow where "rooms_table db roomId = Some roomRow"
    and "room_id room = roomId"
    and "maxLives room = row_max_lives roomRow"
    and "numbersPerPlayer room = row_numbers_per_player roomRow"
    and "sameSeats db roomId room"
    and "players room = map toPlayer
           (filter (\<lambda>row. prow_room_id row = roomId) (players_table db))"
proof (cases "rooms_table db roomId")
  case None
  with assms show ?thesis by (simp add: getRoom_def)
next
  case (Some roomRow)
  with assms have r: "room = \<lparr> room_id = roomId,
                 players = map toPlayer
                             (filter (\<lambda>row. prow_room_id row = roomId) (players_table db)),
                 timeline = row_timeline roomRow,
                 lives = row_lives roomRow,
                 maxLives = row_max_lives roomRow,
                 numbersPerPlayer = row_numbers_per_player roomRow,
                 state = row_state roomRow,
                 hostId = row_host_id roomRow,
                 gameEvents = row_game_events roomRow \<rparr>"
    by (simp add: getRoom_def)
  show ?thesis
  proof (rule that [OF Some])
    show "sameSeats db roomId room"
      by (simp add: r sameSeats_def toPlayer_def comp_def)
  qed (simp_all add: r)
qed


lemma addGameEvent_fields [simp]:
  "room_id (addGameEvent room eid ty d ts) = room_id room"
  "players (addGameEvent room eid ty d ts) = players room"
  "timeline (addGameEvent room eid ty d ts) = timeline room"
  "lives (addGameEvent room eid ty d ts) = lives room"
  "maxLives (addGameEvent room eid ty d ts) = maxLives room"
  "numbersPerPlayer (addGameEvent room eid ty d ts) = numbersPerPlayer room"
  "state (addGameEvent room eid ty d ts) = state room"
  "hostId (addGameEvent room eid ty d ts) = hostId room"
  by (simp_all add: addGameEvent_def Let_def)

lemma sameFrame_addGameEvent: "sameFrame room (addGameEvent room eid ty d ts)"
  by (simp add: sameFrame_def)

lemma sameFrame_resetGame: "sameFrame room (resetGame room)"
  by (simp add: sameFrame_def resetGame_def comp_def)

lemma ids_updateFirst:
  "(\<And>x. g (f x) = g x) \<Longrightarrow> map g (updateFirst P f xs) = map g xs"
  by (induction xs) simp_all

lemma sameFrame_makeMove: "sameFrame room (fst (makeMove room playerId number))"
proof (cases "validateMove room playerId number")
  case Valid
  have "map (\<lambda>p. (player_id p, username p))
          (updateFirst (\<lambda>p. player_id p = playerId)
             (\<lambda>p. p\<lparr> numbers := filter (\<lambda>n. n \<noteq> number) (numbers p) \<rparr>) (players room)) =
        map (\<lambda>p. (player_id p, username p)) (players room)"
    by (rule ids_updateFirst) simp
  with Valid show ?thesis
    by (simp add: sameFrame_def makeMove_def Let_def)
next
  case (Invalid e)
  then show ?thesis
    by (simp add: sameFrame_def makeMove_def Let_def)
qed

lemma sameFrame_playNumber: "sameFrame room (playNumber room socketId number st1 st2)"
proof -
  obtain room1 result where mm: "makeMove room socketId number = (room1, result)"
    by (cases "makeMove room socketId number")
  have f1: "sameFrame room room1" using sameFrame_makeMove [of room socketId number] mm by simp
  have "sameFrame room1 (playNumber room socketId number st1 st2)"
    by (simp add: playNumber_def mm Let_def sameFrame_def)
  with f1 show ?thesis by (rule sameFrame_trans)
qed



lemma sameFrame_resetRoom:
  assumes "resetRoom room socketId st = Inr room2"
  shows "sameFrame room room2"
proof -
  from assms have r2: "room2 = addGameEvent (resetGame room) (fst st) GameReset
      (MessageData ''Game has been reset'') (snd st)"
    by (simp add: resetRoom_def split: if_splits)
  have "sameFrame (resetGame room) room2" unfolding r2 by (rule sameFrame_addGameEvent)
  with sameFrame_resetGame show ?thesis by (rule sameFrame_trans)
qed

lemma seated_find_None:
  "\<not> seated room socketId \<longleftrightarrow> find (\<lambda>p. player_id p = socketId) (players room) = None"
  by (simp add: seated_find)

lemma seatPlayer_fields:
  "room_id (seatPlayer room socketId playerName isHost) = room_id room"
  "players (seatPlayer room socketId playerName isHost) = players room @ [newPlayer socketId playerName]"
  "timeline (seatPlayer room socketId playerName isHost) = timeline room"
  "lives (seatPlayer room socketId playerName isHost) = lives room"
  "maxLives (seatPlayer room socketId playerName isHost) = maxLives room"
  "numbersPerPlayer (seatPlayer room socketId playerName isHost) = numbersPerPlayer room"
  "state (seatPlayer room socketId playerName isHost) = state room"
  "gameEvents (seatPlayer room socketId playerName isHost) = gameEvents room"
  "hostId (seatPlayer room socketId playerName isHost) =
     (if isHost \<or> hostId room = [] then socketId else hostId room)"
  by (simp_all add: seatPlayer_def Let_def)

lemma filter_not_seated:
  assumes "players room = map toPlayer (filter (\<lambda>row. prow_room_id row = roomId) rows)"
    and "find (\<lambda>p. player_id p = socketId) (players room) = None"
  shows "filter (\<lambda>row. prow_room_id row = roomId) (filter (\<lambda>row. prow_id row \<noteq> socketId) rows) =
         filter (\<lambda>row. prow_room_id row = roomId) rows"
proof -
  have "\<forall>row \<in> set rows. prow_room_id row = roomId \<longrightarrow> prow_id row \<noteq> socketId"
    using assms by (auto simp: find_None_iff toPlayer_def)
  then show ?thesis by (induction rows) auto
qed

lemma join_persisted:
  assumes key: "players_key db"
    and got: "getRoom db roomId = Some room"
    and new: "find (\<lambda>p. player_id p = socketId) (players room) = None"
  shows "getRoom
           (updateRoom
              (if isHost \<or> hostId room = []
               then setHost (addPlayer db roomId (newPlayer socketId playerName)) roomId socketId
               else addPlayer db roomId (newPlayer socketId playerName))
              (seatPlayer room socketId playerName isHost)) roomId =
         Some (seatPlayer room socketId playerName isHost)"
proof -
  let ?p = "newPlayer socketId playerName"
  let ?db1 = "addPlayer db roomId ?p"
  let ?db2 = "if isHost \<or> hostId room = [] then setHost ?db1 roomId socketId else ?db1"
  let ?room2 = "seatPlayer room socketId playerName isHost"
  from got obtain roomRow where row: "rooms_table db roomId = Some roomRow"
    and rid: "room_id room = roomId"
    and cfg: "maxLives room = row_max_lives roomRow"
             "numbersPerPlayer room = row_numbers_per_player roomRow"
    and seats: "sameSeats db roomId room"
    and pl: "players room = map toPlayer
           (filter (\<lambda>row. prow_room_id row = roomId) (players_table db))"
    by (rule getRoom_SomeD)
  have tab: "players_table ?db2 =
      filter (\<lambda>row. prow_id row \<noteq> socketId) (players_table db) @
      [\<lparr> prow_id = socketId, prow_room_id = roomId,
         prow_username = username ?p, prow_numbers = [] \<rparr>]"
    by (simp add: addPlayer_def setHost_def newPlayer_def)
  have key2: "players_key ?db2"
    unfolding players_key_def tab using key
    by (auto simp: players_key_def distinct_map_filter)
  obtain row2 where row2: "rooms_table ?db2 roomId = Some row2"
    and cfg2: "row_max_lives row2 = row_max_lives roomRow"
              "row_numbers_per_player row2 = row_numbers_per_player roomRow"
    using row by (cases "isHost \<or> hostId room = []") (auto simp: addPlayer_def setHost_def)
  have seats2: "sameSeats ?db2 roomId ?room2"
    unfolding sameSeats_def tab
    using seats filter_not_seated [OF pl new]
    by (simp add: seatPlayer_fields sameSeats_def newPlayer_def)
  show ?thesis
    by (rule getRoom_updateRoom [OF key2 row2 _ _ _ seats2])
       (simp_all add: seatPlayer_fields rid cfg cfg2)
qed

lemma joinRoomHandler_seated:
  assumes "getRoom (store srv) roomId = Some room" and "seated room socketId"
  shows "joinRoomHandler srv socketId roomId playerName isHost =
           (srv\<lparr> subscriptions := insert (socketId, roomId) (subscriptions srv) \<rparr>,
            snapshot socketId roomId room)"
proof -
  from assms(2) obtain p where "find (\<lambda>p. player_id p = socketId) (players room) = Some p"
    by (auto simp: seated_find)
  then have "joinRoom room socketId playerName isHost = Reconnected"
    by (simp add: joinRoom_def)
  with assms(1) show ?thesis by (simp add: joinRoomHandler_def)
qed

lemma joinRoomHandler_refused:
  assumes "getRoom (store srv) roomId = Some room" and "\<not> seated room socketId"
    and "state room = Playing"
  shows "joinRoomHandler srv socketId roomId playerName isHost =
           (srv, [ToSocket socketId (ErrorMessage CannotJoinInProgress)])"
proof -
  have "joinRoom room socketId playerName isHost = JoinRefused"
    using assms(2,3) by (simp add: joinRoom_def seated_find)
  with assms(1) show ?thesis by (simp add: joinRoomHandler_def)
qed

lemma joinRoomHandler_new:
  assumes got: "getRoom (store srv) roomId = Some room" and new: "\<not> seated room socketId"
    and st: "state room \<noteq> Playing" and key: "players_key (store srv)"
  shows "getRoom (store (fst (joinRoomHandler srv socketId roomId playerName isHost))) roomId =
           Some (seatPlayer room socketId playerName isHost)"
    and "snd (joinRoomHandler srv socketId roomId playerName isHost) =
           snapshot socketId roomId (seatPlayer room socketId playerName isHost)"
    and "subscriptions (fst (joinRoomHandler srv socketId roomId playerName isHost)) =
           insert (socketId, roomId) (subscriptions srv)"
proof -
  have none: "find (\<lambda>p. player_id p = socketId) (players room) = None"
    using new by (simp add: seated_find)
  then have j: "joinRoom room socketId playerName isHost =
      Seated (seatPlayer room socketId playerName isHost)"
    using st by (simp add: joinRoom_def)
  show "getRoom (store (fst (joinRoomHandler srv socketId roomId playerName isHost))) roomId =
           Some (seatPlayer room socketId playerName isHost)"
    using join_persisted [OF key got none, of isHost playerName]
    by (simp add: joinRoomHandler_def got j Let_def)
  show "snd (joinRoomHandler srv socketId roomId playerName isHost) =
           snapshot socketId roomId (seatPlayer room socketId playerName isHost)"
    by (simp add: joinRoomHandler_def got j Let_def)
  show "subscriptions (fst (joinRoomHandler srv socketId roomId playerName isHost)) =
           insert (socketId, roomId) (subscriptions srv)"
    by (simp add: joinRoomHandler_def got j Let_def)
qed

lemma leaveRoom_cases:
  "leaveRoom room socketId =
     (if hostId room = socketId \<and> state room = Lobby then HostLeftLobby
      else if filter (\<lambda>p. player_id p \<noteq> socketId) (players room) = [] then RoomEmpty
      else Survives (room\<lparr> players := filter (\<lambda>p. player_id p \<noteq> socketId) (players room),
                            hostId := (if hostId room = socketId
                                       then player_id (hd (filter (\<lambda>p. player_id p \<noteq> socketId)
                                                             (players room)))
                                       else hostId room) \<rparr>))"
  by (cases "filter (\<lambda>p. player_id p \<noteq> socketId) (players room)")
     (auto simp: leaveRoom_def Let_def)

lemma leave_persisted:
  assumes key: "players_key db"
    and got: "getRoom db roomId = Some room"
    and lv: "leaveRoom room socketId = Survives room2"
  shows "getRoom
           (updateRoom
              (if hostId room = socketId
               then setHost (removePlayer db socketId) roomId (hostId room2)
               else removePlayer db socketId) room2) roomId = Some room2"
proof -
  let ?db1 = "removePlayer db socketId"
  let ?db2 = "if hostId room = socketId then setHost ?db1 roomId (hostId room2) else ?db1"
  from got obtain roomRow where row: "rooms_table db roomId = Some roomRow"
    and rid: "room_id room = roomId"
    and cfg: "maxLives room = row_max_lives roomRow"
             "numbersPerPlayer room = row_numbers_per_player roomRow"
    and pl: "players room = map toPlayer
           (filter (\<lambda>row. prow_room_id row = roomId) (players_table db))"
    by (rule getRoom_SomeD)
  from lv have r2: "room_id room2 = room_id room" "maxLives room2 = maxLives room"
      "numbersPerPlayer room2 = numbersPerPlayer room"
      "players room2 = filter (\<lambda>p. player_id p \<noteq> socketId) (players room)"
    by (auto simp: leaveRoom_cases split: if_splits)
  have tab: "players_table ?db2 = filter (\<lambda>row. prow_id row \<noteq> socketId) (players_table db)"
    by (simp add: removePlayer_def setHost_def)
  have key2: "players_key ?db2"
    unfolding players_key_def tab using key
    by (simp add: players_key_def distinct_map_filter)
  obtain row2 where row2: "rooms_table ?db2 roomId = Some row2"
    and cfg2: "row_max_lives row2 = row_max_lives roomRow"
              "row_numbers_per_player row2 = row_numbers_per_player roomRow"
    using row by (cases "hostId room = socketId") (auto simp: removePlayer_def setHost_def)
  have "filter (\<lambda>p. player_id p \<noteq> socketId) (map toPlayer rows) =
        map toPlayer (filter (\<lambda>row. prow_id row \<noteq> socketId) rows)" for rows
    by (induction rows) (simp_all add: toPlayer_def)
  then have "players room2 = map toPlayer
        (filter (\<lambda>row. prow_room_id row = roomId)
           (filter (\<lambda>row. prow_id row \<noteq> socketId) (players_table db)))"
    unfolding r2(4) pl by (simp add: conj_commute)
  then have seats2: "sameSeats ?db2 roomId room2"
    unfolding sameSeats_def tab by (simp add: toPlayer_def comp_def)
  show ?thesis
    by (rule getRoom_updateRoom [OF key2 row2 _ _ _ seats2])
       (simp_all add: r2 rid cfg cfg2)
qed

lemma getRoom_deleteRoom: "getRoom (deleteRoom db roomId) roomId = None"
  by (simp add: getRoom_def deleteRoom_def)

lemma handlePlayerLeave_room:
  assumes "roomId \<noteq> []" and "getRoom (store srv) roomId = Some room"
  shows "handlePlayerLeave srv socketId (Some roomId) =
     (case leaveRoom room socketId of
        HostLeftLobby \<Rightarrow>
          (srv\<lparr> store := deleteRoom (removePlayer (store srv) socketId) roomId \<rparr>,
           [ToRoom roomId (RoomDeleted ''Host left during lobby'')])
      | RoomEmpty \<Rightarrow> (srv\<lparr> store := deleteRoom (removePlayer (store srv) socketId) roomId \<rparr>, [])
      | Survives room2 \<Rightarrow>
          (srv\<lparr> store := updateRoom
                   (if hostId room = socketId
                    then setHost (removePlayer (store srv) socketId) roomId (hostId room2)
                    else removePlayer (store srv) socketId) room2 \<rparr>,
           ToRoom roomId (RoomUpdated room2) #
           (if state room2 \<noteq> Lobby
            then [ToRoom roomId (GameStateUpdated (getGameState room2))] else [])))"
  using assms by (simp add: handlePlayerLeave_def Let_def split: leave_result.splits)

lemma leaveRoomHandler_unfold:
  "leaveRoomHandler srv socketId roomId =
     (fst (handlePlayerLeave (srv\<lparr> subscriptions := subscriptions srv - {(socketId, roomId)} \<rparr>)
             socketId (Some roomId)),
      snd (handlePlayerLeave (srv\<lparr> subscriptions := subscriptions srv - {(socketId, roomId)} \<rparr>)
             socketId (Some roomId)) @ [ToSocket socketId LeftRoom])"
  by (simp add: leaveRoomHandler_def Let_def split: prod.splits)

lemma disconnectHandler_nothing:
  "store (fst (disconnectHandler srv socketId)) = store srv \<and>
   snd (disconnectHandler srv socketId) = []"
  by (simp add: disconnectHandler_def handlePlayerLeave_def)

lemma getRoom_demoStoreIn: "getRoom (demoStoreIn s) ''ROOM01'' = Some (demoRoom\<lparr> state := s \<rparr>)"
  by (simp add: getRoom_def demoStoreIn_def demoRoom_def toPlayer_def)

lemma players_key_demoStoreIn: "players_key (demoStoreIn s)"
  by (simp add: players_key_def demoStoreIn_def)

lemma store_demoServerIn: "store (demoServerIn s) = demoStoreIn s"
  by (simp add: demoServerIn_def)

lemma ids_foldl_updatePlayerNumbers:
  "map prow_id (foldl updatePlayerNumbers rows ps) = map prow_id rows"
  unfolding foldl_updatePlayerNumbers by (induction rows) (simp_all split: option.splits)

lemma leave_row_gone:
  assumes "roomId \<noteq> []" and "getRoom (store srv) roomId = Some room"
  shows "socketId \<notin> prow_id ` set (players_table (store (fst (handlePlayerLeave srv socketId (Some roomId)))))"
proof -
  have gone: "socketId \<notin> prow_id ` set (filter (\<lambda>row. prow_id row \<noteq> socketId) rows)" for rows
    by auto
  show ?thesis
  proof (cases "leaveRoom room socketId")
    case HostLeftLobby
    then show ?thesis
      by (auto simp: handlePlayerLeave_room [OF assms] deleteRoom_def removePlayer_def)
  next
    case RoomEmpty
    then show ?thesis
      by (auto simp: handlePlayerLeave_room [OF assms] deleteRoom_def removePlayer_def)
  next
    case (Survives room2)
    have "prow_id ` set (foldl updatePlayerNumbers rows ps) = prow_id ` set rows" for rows ps
      using ids_foldl_updatePlayerNumbers [of rows ps] by (metis set_map)
    with Survives gone show ?thesis
      by (simp add: handlePlayerLeave_room [OF assms] updateRoom_def removePlayer_def setHost_def)
  qed
qed

section \<open>Lemmas on starting a game\<close>












section \<open>Lemmas on sequences of operations\<close>

lemma makeMove_lives:
  "lives (fst (makeMove room playerId number)) =
     (if validateMove room playerId number = Valid then lives room
      else decrement (lives room))"
  by (cases "validateMove room playerId number") (simp_all add: makeMove_def Let_def)


lemma makeMove_state:
  "state (fst (makeMove room playerId number)) =
     (if validateMove room playerId number = Valid
      then (if list_all (\<lambda>p. numbers p = []) (players (fst (makeMove room playerId number)))
            then Victory else state room)
      else (if decrement (lives room) \<le> 0 then GameOver else state room))"
  by (cases "validateMove room playerId number") (simp_all add: makeMove_def Let_def)












lemma validateMove_demo_wrong:
  "validateMove (demoRoom\<lparr> lives := l, maxLives := m \<rparr>) ''a'' 3 = Invalid (OutOfOrder 1 3)"
  by (simp add: validateMove_def getNextExpectedNumber_def demoRoom_def)




section \<open>Lemmas on the timeline\<close>














section \<open>Claims on the game engine\<close>

text \<open>
  Claim C5. \<^verbatim>\<open>validateMove\<close> answers valid if and only if the state is playing, a player
  with the id is seated, that player holds the number, the number is not on the timeline,
  and the number is the least number of all hands that is absent from the timeline.
  Every violation is answered with the reason of the first check that fails, one of five
  distinct tags: not playing, unknown player, not held, already played, out of order.
  \<^verbatim>\<open>validateMove\<close> is a total function of the room, which it only reads: it never throws
  and changes nothing.
\<close>

theorem validateMove_valid_iff_and_reasons:
  "(validateMove room playerId number = Valid \<longleftrightarrow>
      state room = Playing \<and> seated room playerId \<and> holdsNumber room playerId number \<and>
      number \<notin> set (timeline room) \<and> isExpectedNext room number) \<and>
   validateMove room playerId number =
     (if state room \<noteq> Playing then Invalid NotPlaying
      else if \<not> seated room playerId then Invalid PlayerNotFound
      else if \<not> holdsNumber room playerId number then Invalid NotHeld
      else if number \<in> set (timeline room) then Invalid AlreadyPlayed
      else if \<not> isExpectedNext room number
           then Invalid (OutOfOrder (getNextExpectedNumber room) number)
      else Valid)"
proof
  show "validateMove room playerId number = Valid \<longleftrightarrow>
      state room = Playing \<and> seated room playerId \<and> holdsNumber room playerId number \<and>
      number \<notin> set (timeline room) \<and> isExpectedNext room number"
    by (subst validateMove_cascade) simp
  show "validateMove room playerId number =
     (if state room \<noteq> Playing then Invalid NotPlaying
      else if \<not> seated room playerId then Invalid PlayerNotFound
      else if \<not> holdsNumber room playerId number then Invalid NotHeld
      else if number \<in> set (timeline room) then Invalid AlreadyPlayed
      else if \<not> isExpectedNext room number
           then Invalid (OutOfOrder (getNextExpectedNumber room) number)
      else Valid)"
    by (rule validateMove_cascade)
qed

theorem validateMove_valid_iff_and_reasons_witness:
  "state demoRoom = Playing \<and> seated demoRoom ''a'' \<and> holdsNumber demoRoom ''a'' 1 \<and>
   1 \<notin> set (timeline demoRoom) \<and> isExpectedNext demoRoom 1 \<and>
   validateMove demoRoom ''a'' 1 = Valid \<and>
   \<not> isExpectedNext demoRoom 3 \<and>
   validateMove demoRoom ''a'' 3 = Invalid (OutOfOrder 1 3) \<and>
   validateMove demoRoom ''c'' 1 = Invalid PlayerNotFound \<and>
   validateMove demoRoom ''b'' 1 = Invalid NotHeld"
proof -
  have c: "state demoRoom = Playing" "seated demoRoom ''a''" "holdsNumber demoRoom ''a'' 1"
    "1 \<notin> set (timeline demoRoom)" "isExpectedNext demoRoom 1"
    "holdsNumber demoRoom ''a'' 3" "3 \<notin> set (timeline demoRoom)"
    "\<not> isExpectedNext demoRoom 3" "\<not> seated demoRoom ''c''"
    "seated demoRoom ''b''" "\<not> holdsNumber demoRoom ''b'' 1"
    by (simp_all add: demoRoom_def seated_def holdsNumber_def isExpectedNext_def
        unplayedNumbers_def)
  have e: "getNextExpectedNumber demoRoom = 1"
    by (simp add: getNextExpectedNumber_def demoRoom_def)
  from c e validateMove_valid_iff_and_reasons [of demoRoom "''a''" 1]
    validateMove_valid_iff_and_reasons [of demoRoom "''a''" 3]
    validateMove_valid_iff_and_reasons [of demoRoom "''c''" 1]
    validateMove_valid_iff_and_reasons [of demoRoom "''b''" 1]
  show ?thesis by simp
qed

text \<open>
  Claim C3, as stated: a rejected move lowers the lives by exactly 1 and sets the state to
  game-over exactly when the lives reach 0 on that decrement. The test of \<^verbatim>\<open>makeMove\<close> is
  \<^verbatim>\<open>room.lives <= 0\<close>: in a room whose lives are at 0 already, a rejected move takes them to
  -1 and the state still becomes game-over. And \<^verbatim>\<open>room.lives--\<close> is a binary64 subtraction:
  in a room with \<open>- 2 ^ 53\<close> lives a rejected move leaves the lives as they are.
\<close>

theorem makeMove_game_over_below_zero:
  "validateMove lastLifeRoom ''a'' 3 \<noteq> Valid \<and>
   state lastLifeRoom = Playing \<and>
   state (fst (makeMove lastLifeRoom ''a'' 3)) = GameOver \<and>
   lives (fst (makeMove lastLifeRoom ''a'' 3)) = - 1 \<and>
   lives (fst (makeMove lastLifeRoom ''a'' 3)) \<noteq> 0 \<and>
   validateMove overdrawnRoom ''a'' 3 \<noteq> Valid \<and>
   lives overdrawnRoom = - (2 ^ 53) \<and>
   lives (fst (makeMove overdrawnRoom ''a'' 3)) = - (2 ^ 53) \<and>
   lives (fst (makeMove overdrawnRoom ''a'' 3)) \<noteq> lives overdrawnRoom - 1"
proof -
  have v: "validateMove lastLifeRoom ''a'' 3 = Invalid (OutOfOrder 1 3)"
    "validateMove overdrawnRoom ''a'' 3 = Invalid (OutOfOrder 1 3)"
    by (simp_all add: lastLifeRoom_def overdrawnRoom_def validateMove_demo_wrong)
  have l: "lives lastLifeRoom = 0" "state lastLifeRoom = Playing"
    "lives overdrawnRoom = - (2 ^ 53)"
    by (simp_all add: lastLifeRoom_def overdrawnRoom_def demoRoom_def)
  have d: "decrement (- 9007199254740992) = - 9007199254740992"
    using decrement_absorbed by simp
  show ?thesis
    by (simp add: makeMove_lives makeMove_state v l decrement_small d)
qed

text \<open>
  Claim C3, amended. If \<^verbatim>\<open>validateMove\<close> rejects the move, \<^verbatim>\<open>makeMove\<close> replaces the lives by
  the binary64 result of lives - 1, leaves the timeline and all players (so every hand)
  unchanged, and sets the state to game-over exactly when the lives after the decrement
  are at most 0; otherwise the state stays as it was. The decrement is by exactly 1 when
  the lives are an integer above \<open>- 2 ^ 53\<close> and at most \<open>2 ^ 53\<close>; whenever lives - 1 is of
  magnitude below \<open>2 ^ 53\<close> it is by at least 1/2 and at most 3/2. If \<^verbatim>\<open>validateMove\<close> accepts,
  \<^verbatim>\<open>makeMove\<close> appends the number to the timeline, removes it from the hand of the first
  player with the id and changes no other player, leaves the lives unchanged, and sets
  the state to victory exactly when every hand is empty afterwards.
\<close>

theorem makeMove_effect:
  assumes "makeMove room playerId number = (room', result)"
  shows "(validateMove room playerId number \<noteq> Valid \<longrightarrow>
            lives room' = decrement (lives room) \<and>
            (lives room \<in> \<int> \<and> - (2 ^ 53) < lives room \<and> lives room \<le> 2 ^ 53 \<longrightarrow>
               lives room' = lives room - 1) \<and>
            (\<bar>lives room - 1\<bar> < 2 ^ 53 \<longrightarrow>
               lives room - 3 / 2 \<le> lives room' \<and> lives room' \<le> lives room - 1 / 2) \<and>
            timeline room' = timeline room \<and>
            players room' = players room \<and>
            state room' = (if lives room' \<le> 0 then GameOver else state room)) \<and>
         (validateMove room playerId number = Valid \<longrightarrow>
            timeline room' = timeline room @ [number] \<and>
            lives room' = lives room \<and>
            (\<exists>i<length (players room).
                player_id (players room ! i) = playerId \<and>
                (\<forall>j<i. player_id (players room ! j) \<noteq> playerId) \<and>
                players room' =
                  (players room)[i := (players room ! i)
                     \<lparr> numbers := filter (\<lambda>m. m \<noteq> number) (numbers (players room ! i)) \<rparr>]) \<and>
            state room' =
              (if \<forall>p \<in> set (players room'). numbers p = [] then Victory else state room))"
proof (cases "validateMove room playerId number")
  case (Invalid e)
  with assms have f: "lives room' = decrement (lives room)" "timeline room' = timeline room"
    "players room' = players room"
    "state room' = (if lives room' \<le> 0 then GameOver else state room)"
    by (auto simp: makeMove_def Let_def split: if_splits)
  have exact: "lives room' = lives room - 1"
    if "lives room \<in> \<int>" "- (2 ^ 53) < lives room" "lives room \<le> 2 ^ 53"
  proof -
    from that(1) obtain n where n: "lives room = of_int n" by (elim Ints_cases)
    from that(2) have "real_of_int (- (2 ^ 53)) < real_of_int n" by (simp add: n)
    then have lo: "- (2 ^ 53) < n" by (simp only: of_int_less_iff)
    from that(3) have "real_of_int n \<le> real_of_int (2 ^ 53)" by (simp add: n)
    then have hi: "n \<le> 2 ^ 53" by (simp only: of_int_le_iff)
    from decrement_int [OF lo hi] show ?thesis by (simp add: f(1) n)
  qed
  have near: "lives room - 3 / 2 \<le> lives room' \<and> lives room' \<le> lives room - 1 / 2"
    if "\<bar>lives room - 1\<bar> < 2 ^ 53"
    using decrement_lowers [OF that] by (simp add: f(1))
  from Invalid f exact near show ?thesis by simp
next
  case Valid
  then obtain p where p: "find (\<lambda>p. player_id p = playerId) (players room) = Some p"
    using validateMove_Valid_find by blast
  let ?f = "\<lambda>p. p\<lparr> numbers := filter (\<lambda>m. m \<noteq> number) (numbers p) \<rparr>"
  from updateFirst_nth [OF p, of ?f]
  obtain i where i: "i < length (players room)" "player_id (players room ! i) = playerId"
    "\<forall>j<i. player_id (players room ! j) \<noteq> playerId"
    "updateFirst (\<lambda>p. player_id p = playerId) ?f (players room) =
       (players room)[i := ?f (players room ! i)]"
    by blast
  have pl: "players room' = updateFirst (\<lambda>p. player_id p = playerId) ?f (players room)"
    and tl: "timeline room' = timeline room @ [number]"
    and lv: "lives room' = lives room"
    and st: "state room' =
      (if list_all (\<lambda>p. length (numbers p) = 0)
            (updateFirst (\<lambda>p. player_id p = playerId) ?f (players room))
       then Victory else state room)"
    using assms Valid by (auto simp: makeMove_def Let_def split: if_splits)
  have "state room' = (if \<forall>p \<in> set (players room'). numbers p = [] then Victory else state room)"
    using st pl by (simp add: list_all_iff)
  with Valid i pl tl lv show ?thesis by auto
qed

theorem makeMove_effect_witness:
  "validateMove demoRoom ''a'' 3 \<noteq> Valid \<and>
   lives (fst (makeMove demoRoom ''a'' 3)) = 2 \<and>
   timeline (fst (makeMove demoRoom ''a'' 3)) = [] \<and>
   players (fst (makeMove demoRoom ''a'' 3)) = players demoRoom \<and>
   state (fst (makeMove demoRoom ''a'' 3)) = Playing \<and>
   validateMove demoRoom ''a'' 1 = Valid \<and>
   timeline (fst (makeMove demoRoom ''a'' 1)) = [1] \<and>
   lives (fst (makeMove demoRoom ''a'' 1)) = 3 \<and>
   map numbers (players (fst (makeMove demoRoom ''a'' 1))) = [[3], [2, 4]] \<and>
   state (fst (makeMove demoRoom ''a'' 1)) = Playing \<and>
   validateMove halfLifeRoom ''a'' 3 \<noteq> Valid \<and> lives halfLifeRoom = 3 / 2 \<and>
   lives (fst (makeMove halfLifeRoom ''a'' 3)) = 1 / 2 \<and>
   state (fst (makeMove halfLifeRoom ''a'' 3)) = Playing \<and>
   \<bar>lives halfLifeRoom - 1\<bar> < 2 ^ 53 \<and>
   lives halfLifeRoom - 3 / 2 \<le> lives (fst (makeMove halfLifeRoom ''a'' 3)) \<and>
   lives (fst (makeMove halfLifeRoom ''a'' 3)) \<le> lives halfLifeRoom - 1 / 2 \<and>
   validateMove (halfLifeRoom\<lparr> lives := 1 / 2 \<rparr>) ''a'' 3 \<noteq> Valid \<and>
   lives (fst (makeMove (halfLifeRoom\<lparr> lives := 1 / 2 \<rparr>) ''a'' 3)) = - (1 / 2) \<and>
   state (fst (makeMove (halfLifeRoom\<lparr> lives := 1 / 2 \<rparr>) ''a'' 3)) = GameOver"
proof -
  have r: "validateMove demoRoom ''a'' 3 \<noteq> Valid"
    by (simp add: validateMove_def getNextExpectedNumber_def demoRoom_def)
  have a: "validateMove demoRoom ''a'' 1 = Valid"
    by (simp add: validateMove_def getNextExpectedNumber_def demoRoom_def)
  have f: "lives demoRoom = 3" "timeline demoRoom = []" "state demoRoom = Playing"
    by (simp_all add: demoRoom_def)
  from makeMove_effect [OF prod.collapse [symmetric], of demoRoom "''a''" 3] r f
  have rej: "lives (fst (makeMove demoRoom ''a'' 3)) = 2 \<and>
      timeline (fst (makeMove demoRoom ''a'' 3)) = [] \<and>
      players (fst (makeMove demoRoom ''a'' 3)) = players demoRoom \<and>
      state (fst (makeMove demoRoom ''a'' 3)) = Playing"
    by simp
  note acc = makeMove_effect [OF prod.collapse [symmetric], of demoRoom "''a''" 1]
  from acc a f have tl: "timeline (fst (makeMove demoRoom ''a'' 1)) = [1]"
    and lv: "lives (fst (makeMove demoRoom ''a'' 1)) = 3"
    by simp_all
  from acc a obtain i where i: "i < length (players demoRoom)"
      "player_id (players demoRoom ! i) = ''a''"
      "players (fst (makeMove demoRoom ''a'' 1)) =
         (players demoRoom)[i := (players demoRoom ! i)
            \<lparr> numbers := filter (\<lambda>m. m \<noteq> 1) (numbers (players demoRoom ! i)) \<rparr>]"
    by blast
  have len: "length (players demoRoom) = 2"
    and p1: "player_id (players demoRoom ! 1) = ''b''"
    by (simp_all add: demoRoom_def)
  from i(1) len have "i = 0 \<or> i = 1" by linarith
  with i(2) p1 have "i = 0" by auto
  with i(3) have pl: "players (fst (makeMove demoRoom ''a'' 1)) =
      [\<lparr> player_id = ''a'', username = ''Ann'', numbers = [3] \<rparr>,
       \<lparr> player_id = ''b'', username = ''Bob'', numbers = [2, 4] \<rparr>]"
    by (simp add: demoRoom_def)
  from acc a f have "state (fst (makeMove demoRoom ''a'' 1)) =
       (if \<forall>p \<in> set (players (fst (makeMove demoRoom ''a'' 1))). numbers p = []
        then Victory else Playing)"
    by simp
  then have st: "state (fst (makeMove demoRoom ''a'' 1)) = Playing"
    by (simp add: pl)
  have hv: "validateMove halfLifeRoom ''a'' 3 \<noteq> Valid"
    "validateMove (halfLifeRoom\<lparr> lives := 1 / 2 \<rparr>) ''a'' 3 \<noteq> Valid"
    by (simp_all add: halfLifeRoom_def validateMove_def getNextExpectedNumber_def demoRoom_def)
  have hf: "lives halfLifeRoom = 3 / 2" "state halfLifeRoom = Playing"
    by (simp_all add: halfLifeRoom_def demoRoom_def)
  from makeMove_effect [OF prod.collapse [symmetric], of halfLifeRoom "''a''" 3] hv(1) hf
  have h1: "lives (fst (makeMove halfLifeRoom ''a'' 3)) = 1 / 2 \<and>
      state (fst (makeMove halfLifeRoom ''a'' 3)) = Playing"
    by (simp add: decrement_half)
  from makeMove_effect [OF prod.collapse [symmetric],
      of "halfLifeRoom\<lparr> lives := 1 / 2 \<rparr>" "''a''" 3] hv(2)
  have h2: "lives (fst (makeMove (halfLifeRoom\<lparr> lives := 1 / 2 \<rparr>) ''a'' 3)) = - (1 / 2) \<and>
      state (fst (makeMove (halfLifeRoom\<lparr> lives := 1 / 2 \<rparr>) ''a'' 3)) = GameOver"
    by (simp add: decrement_half)
  have hb: "\<bar>lives halfLifeRoom - 1\<bar> < 2 ^ 53" by (simp add: hf)
  from makeMove_effect [OF prod.collapse [symmetric], of halfLifeRoom "''a''" 3] hv(1) hb
  have h3: "lives halfLifeRoom - 3 / 2 \<le> lives (fst (makeMove halfLifeRoom ''a'' 3)) \<and>
      lives (fst (makeMove halfLifeRoom ''a'' 3)) \<le> lives halfLifeRoom - 1 / 2"
    by blast
  from rej r a tl lv st hv hf h1 h2 hb h3 show ?thesis by (simp add: pl)
qed




section \<open>Claims on the handlers and the create-room route\<close>

text \<open>
  Claim C8. For a connection identity that is already seated in the room, a repeated
  \<^verbatim>\<open>join-room\<close> writes nothing: the store, and with it the player list, the host and
  every other field of the room, is unchanged, whatever name and host flag the request
  carries; the room snapshot is emitted to the room again, and the game-state projection
  to the connection when the state is not lobby.
\<close>

theorem joinRoom_rejoin_idempotent:
  assumes "getRoom (store srv) roomId = Some room" and "seated room socketId"
  shows "store (fst (joinRoomHandler srv socketId roomId playerName isHost)) = store srv \<and>
         getRoom (store (fst (joinRoomHandler srv socketId roomId playerName isHost))) roomId =
           Some room \<and>
         snd (joinRoomHandler srv socketId roomId playerName isHost) =
           ToRoom roomId (RoomUpdated room) #
           (if state room \<noteq> Lobby
            then [ToSocket socketId (GameStateUpdated (getGameState room))] else [])"
  using joinRoomHandler_seated [OF assms, of playerName isHost] assms(1)
  by (simp add: snapshot_def)

theorem joinRoom_rejoin_idempotent_witness:
  "getRoom (store (demoServerIn Playing)) ''ROOM01'' = Some (demoRoom\<lparr> state := Playing \<rparr>) \<and>
   seated (demoRoom\<lparr> state := Playing \<rparr>) ''b'' \<and>
   store (fst (joinRoomHandler (demoServerIn Playing) ''b'' ''ROOM01'' ''Bobby'' True)) =
     store (demoServerIn Playing) \<and>
   snd (joinRoomHandler (demoServerIn Playing) ''b'' ''ROOM01'' ''Bobby'' True) =
     [ToRoom ''ROOM01'' (RoomUpdated (demoRoom\<lparr> state := Playing \<rparr>)),
      ToSocket ''b'' (GameStateUpdated (getGameState (demoRoom\<lparr> state := Playing \<rparr>)))]"
proof -
  have g: "getRoom (store (demoServerIn Playing)) ''ROOM01'' = Some (demoRoom\<lparr> state := Playing \<rparr>)"
    by (simp add: store_demoServerIn getRoom_demoStoreIn)
  have s: "seated (demoRoom\<lparr> state := Playing \<rparr>) ''b''"
    by (simp add: seated_def demoRoom_def)
  from joinRoom_rejoin_idempotent [OF g s, of "''Bobby''" True] g s show ?thesis by simp
qed

text \<open>
  Claim C10. For a connection identity that is not seated in the room (the table of
  players having its key), \<^verbatim>\<open>join-room\<close> is refused, with the error sent to the requester
  alone and the server unchanged, exactly when the state of the room is playing. In every
  other state, game-over and victory among them, the identity is seated as a new player
  with an empty hand at the end of the player list, and the new snapshot is emitted.
\<close>

theorem joinRoom_new_identity:
  assumes "getRoom (store srv) roomId = Some room" and "\<not> seated room socketId"
    and "players_key (store srv)"
  shows "(joinRoomHandler srv socketId roomId playerName isHost =
            (srv, [ToSocket socketId (ErrorMessage CannotJoinInProgress)])
          \<longleftrightarrow> state room = Playing) \<and>
         (state room \<noteq> Playing \<longrightarrow>
            (\<exists>room2.
               getRoom (store (fst (joinRoomHandler srv socketId roomId playerName isHost))) roomId
                 = Some room2 \<and>
               players room2 =
                 players room @
                 [\<lparr> player_id = socketId,
                    username = (if playerName = [] then ''Anonymous'' else playerName),
                    numbers = [] \<rparr>] \<and>
               state room2 = state room \<and> timeline room2 = timeline room \<and>
               lives room2 = lives room \<and>
               snd (joinRoomHandler srv socketId roomId playerName isHost) =
                 ToRoom roomId (RoomUpdated room2) #
                 (if state room2 \<noteq> Lobby
                  then [ToSocket socketId (GameStateUpdated (getGameState room2))] else [])))"
proof (cases "state room = Playing")
  case True
  with joinRoomHandler_refused [OF assms(1,2) True, of playerName isHost] show ?thesis by simp
next
  case False
  note new = joinRoomHandler_new [OF assms(1,2) False assms(3), of playerName isHost]
  have "joinRoomHandler srv socketId roomId playerName isHost \<noteq>
        (srv, [ToSocket socketId (ErrorMessage CannotJoinInProgress)])"
    using new(2) by (auto simp: snapshot_def)
  moreover have "\<exists>room2.
       getRoom (store (fst (joinRoomHandler srv socketId roomId playerName isHost))) roomId
         = Some room2 \<and>
       players room2 =
         players room @
         [\<lparr> player_id = socketId,
            username = (if playerName = [] then ''Anonymous'' else playerName),
            numbers = [] \<rparr>] \<and>
       state room2 = state room \<and> timeline room2 = timeline room \<and>
       lives room2 = lives room \<and>
       snd (joinRoomHandler srv socketId roomId playerName isHost) =
         ToRoom roomId (RoomUpdated room2) #
         (if state room2 \<noteq> Lobby
          then [ToSocket socketId (GameStateUpdated (getGameState room2))] else [])"
    by (rule exI [of _ "seatPlayer room socketId playerName isHost"])
       (simp add: new seatPlayer_fields newPlayer_def snapshot_def)
  ultimately show ?thesis using False by simp
qed

theorem joinRoom_new_identity_witness:
  "getRoom (store (demoServerIn Playing)) ''ROOM01'' = Some (demoRoom\<lparr> state := Playing \<rparr>) \<and>
   \<not> seated (demoRoom\<lparr> state := Playing \<rparr>) ''c'' \<and> players_key (store (demoServerIn Playing)) \<and>
   joinRoomHandler (demoServerIn Playing) ''c'' ''ROOM01'' ''Cy'' False =
     (demoServerIn Playing, [ToSocket ''c'' (ErrorMessage CannotJoinInProgress)]) \<and>
   getRoom (store (demoServerIn Victory)) ''ROOM01'' = Some (demoRoom\<lparr> state := Victory \<rparr>) \<and>
   \<not> seated (demoRoom\<lparr> state := Victory \<rparr>) ''c'' \<and> players_key (store (demoServerIn Victory)) \<and>
   (\<exists>room2.
      getRoom (store (fst (joinRoomHandler (demoServerIn Victory) ''c'' ''ROOM01'' ''Cy'' False)))
        ''ROOM01'' = Some room2 \<and>
      players room2 = players demoRoom @ [\<lparr> player_id = ''c'', username = ''Cy'', numbers = [] \<rparr>])"
proof -
  have g: "getRoom (store (demoServerIn s)) ''ROOM01'' = Some (demoRoom\<lparr> state := s \<rparr>)" for s
    by (simp add: store_demoServerIn getRoom_demoStoreIn)
  have n: "\<not> seated (demoRoom\<lparr> state := s \<rparr>) ''c''" for s
    by (simp add: seated_def demoRoom_def)
  have k: "players_key (store (demoServerIn s))" for s
    by (simp add: store_demoServerIn players_key_demoStoreIn)
  from joinRoom_new_identity [OF g n k, of Playing "''Cy''" False]
  have a: "joinRoomHandler (demoServerIn Playing) ''c'' ''ROOM01'' ''Cy'' False =
     (demoServerIn Playing, [ToSocket ''c'' (ErrorMessage CannotJoinInProgress)])"
    by simp
  from joinRoom_new_identity [OF g n k, of Victory "''Cy''" False]
  have b: "\<exists>room2.
      getRoom (store (fst (joinRoomHandler (demoServerIn Victory) ''c'' ''ROOM01'' ''Cy'' False)))
        ''ROOM01'' = Some room2 \<and>
      players room2 = players demoRoom @ [\<lparr> player_id = ''c'', username = ''Cy'', numbers = [] \<rparr>]"
    by auto
  from a b g n k show ?thesis by simp
qed

text \<open>
  Claim C7, as stated, covers the involuntary disconnect: the host disconnecting in the
  lobby should destroy the room. The \<^verbatim>\<open>disconnect\<close> handler passes no room id, and
  \<^verbatim>\<open>handlePlayerLeave\<close> then returns at once: the host stays seated, the room stays, and
  nothing is emitted.
\<close>

theorem disconnect_leaves_host_seated:
  "getRoom (store (demoServerIn Lobby)) ''ROOM01'' = Some (demoRoom\<lparr> state := Lobby \<rparr>) \<and>
   hostId (demoRoom\<lparr> state := Lobby \<rparr>) = ''a'' \<and>
   seated (demoRoom\<lparr> state := Lobby \<rparr>) ''a'' \<and>
   getRoom (store (fst (disconnectHandler (demoServerIn Lobby) ''a''))) ''ROOM01'' =
     Some (demoRoom\<lparr> state := Lobby \<rparr>) \<and>
   snd (disconnectHandler (demoServerIn Lobby) ''a'') = []"
  by (simp add: disconnectHandler_def handlePlayerLeave_def store_demoServerIn
      getRoom_demoStoreIn)
     (simp add: demoRoom_def seated_def)

text \<open>
  Claim C7, amended. For every \<^verbatim>\<open>leave-room\<close> of a seated player (room id not empty, the
  table of players having its key): the row of the player is removed and the connection
  unsubscribed; if the player was the host and the state was lobby, the room is deleted
  and \<^verbatim>\<open>room-deleted\<close> is broadcast to the channel; otherwise the room is deleted if no
  player remains, and else it survives with the remaining players in join order, the
  first of them being the new host if the host left. An involuntary disconnect changes
  nothing in the store and emits nothing.
\<close>

theorem leave_and_disconnect:
  assumes got: "getRoom (store srv) roomId = Some room" and "seated room socketId"
    and rid: "roomId \<noteq> []" and key: "players_key (store srv)"
  shows
    "(hostId room = socketId \<and> state room = Lobby \<longrightarrow>
        getRoom (store (fst (leaveRoomHandler srv socketId roomId))) roomId = None \<and>
        snd (leaveRoomHandler srv socketId roomId) =
          [ToRoom roomId (RoomDeleted ''Host left during lobby''), ToSocket socketId LeftRoom]) \<and>
     (\<not> (hostId room = socketId \<and> state room = Lobby) \<longrightarrow>
        (filter (\<lambda>p. player_id p \<noteq> socketId) (players room) = [] \<longrightarrow>
           getRoom (store (fst (leaveRoomHandler srv socketId roomId))) roomId = None \<and>
           snd (leaveRoomHandler srv socketId roomId) = [ToSocket socketId LeftRoom]) \<and>
        (filter (\<lambda>p. player_id p \<noteq> socketId) (players room) \<noteq> [] \<longrightarrow>
           (\<exists>room2.
              getRoom (store (fst (leaveRoomHandler srv socketId roomId))) roomId = Some room2 \<and>
              room2 = room\<lparr> players := filter (\<lambda>p. player_id p \<noteq> socketId) (players room),
                             hostId := (if hostId room = socketId
                                        then player_id (hd (filter (\<lambda>p. player_id p \<noteq> socketId)
                                                              (players room)))
                                        else hostId room) \<rparr> \<and>
              snd (leaveRoomHandler srv socketId roomId) =
                ToRoom roomId (RoomUpdated room2) #
                (if state room2 \<noteq> Lobby
                 then [ToRoom roomId (GameStateUpdated (getGameState room2))] else []) @
                [ToSocket socketId LeftRoom]))) \<and>
     socketId \<notin> prow_id ` set (players_table (store (fst (leaveRoomHandler srv socketId roomId)))) \<and>
     (socketId, roomId) \<notin> subscriptions (fst (leaveRoomHandler srv socketId roomId)) \<and>
     store (fst (disconnectHandler srv socketId)) = store srv \<and>
     snd (disconnectHandler srv socketId) = []"
proof -
  let ?srv1 = "srv\<lparr> subscriptions := subscriptions srv - {(socketId, roomId)} \<rparr>"
  let ?survivors = "filter (\<lambda>p. player_id p \<noteq> socketId) (players room)"
  have got1: "getRoom (store ?srv1) roomId = Some room" using got by simp
  note hpl = handlePlayerLeave_room [OF rid got1, of socketId]
  have lobby: "getRoom (store (fst (leaveRoomHandler srv socketId roomId))) roomId = None \<and>
        snd (leaveRoomHandler srv socketId roomId) =
          [ToRoom roomId (RoomDeleted ''Host left during lobby''), ToSocket socketId LeftRoom]"
    if "hostId room = socketId \<and> state room = Lobby"
  proof -
    from that have "leaveRoom room socketId = HostLeftLobby" by (simp add: leaveRoom_cases)
    then show ?thesis
      by (simp add: leaveRoomHandler_unfold hpl getRoom_deleteRoom)
  qed
  have empty: "getRoom (store (fst (leaveRoomHandler srv socketId roomId))) roomId = None \<and>
           snd (leaveRoomHandler srv socketId roomId) = [ToSocket socketId LeftRoom]"
    if "\<not> (hostId room = socketId \<and> state room = Lobby)" "?survivors = []"
  proof -
    from that have "leaveRoom room socketId = RoomEmpty" by (simp add: leaveRoom_cases)
    then show ?thesis
      by (simp add: leaveRoomHandler_unfold hpl getRoom_deleteRoom)
  qed
  have survive: "\<exists>room2.
              getRoom (store (fst (leaveRoomHandler srv socketId roomId))) roomId = Some room2 \<and>
              room2 = room\<lparr> players := ?survivors,
                             hostId := (if hostId room = socketId
                                        then player_id (hd ?survivors) else hostId room) \<rparr> \<and>
              snd (leaveRoomHandler srv socketId roomId) =
                ToRoom roomId (RoomUpdated room2) #
                (if state room2 \<noteq> Lobby
                 then [ToRoom roomId (GameStateUpdated (getGameState room2))] else []) @
                [ToSocket socketId LeftRoom]"
    if "\<not> (hostId room = socketId \<and> state room = Lobby)" "?survivors \<noteq> []"
  proof -
    let ?room2 = "room\<lparr> players := ?survivors,
                         hostId := (if hostId room = socketId
                                    then player_id (hd ?survivors) else hostId room) \<rparr>"
    from that have lv: "leaveRoom room socketId = Survives ?room2"
      by (simp add: leaveRoom_cases)
    have key1: "players_key (store ?srv1)" using key by simp
    from leave_persisted [OF key1 got1 lv]
    have "getRoom (store (fst (leaveRoomHandler srv socketId roomId))) roomId = Some ?room2"
      by (simp add: leaveRoomHandler_unfold hpl lv)
    moreover have "snd (leaveRoomHandler srv socketId roomId) =
                ToRoom roomId (RoomUpdated ?room2) #
                (if state ?room2 \<noteq> Lobby
                 then [ToRoom roomId (GameStateUpdated (getGameState ?room2))] else []) @
                [ToSocket socketId LeftRoom]"
      by (simp add: leaveRoomHandler_unfold hpl lv)
    ultimately show ?thesis by blast
  qed
  have row: "socketId \<notin> prow_id ` set (players_table (store (fst (leaveRoomHandler srv socketId roomId))))"
    using leave_row_gone [OF rid got1, of socketId] by (simp add: leaveRoomHandler_unfold)
  have sub: "(socketId, roomId) \<notin> subscriptions (fst (leaveRoomHandler srv socketId roomId))"
    by (cases "leaveRoom room socketId") (simp_all add: leaveRoomHandler_unfold hpl)
  from lobby empty survive row sub disconnectHandler_nothing [of srv socketId]
  show ?thesis by blast
qed

theorem leave_and_disconnect_witness:
  "getRoom (store (demoServerIn Lobby)) ''ROOM01'' = Some (demoRoom\<lparr> state := Lobby \<rparr>) \<and>
   seated (demoRoom\<lparr> state := Lobby \<rparr>) ''a'' \<and> ''ROOM01'' \<noteq> [] \<and>
   players_key (store (demoServerIn Lobby)) \<and>
   getRoom (store (fst (leaveRoomHandler (demoServerIn Lobby) ''a'' ''ROOM01''))) ''ROOM01'' = None \<and>
   snd (leaveRoomHandler (demoServerIn Lobby) ''a'' ''ROOM01'') =
     [ToRoom ''ROOM01'' (RoomDeleted ''Host left during lobby''), ToSocket ''a'' LeftRoom] \<and>
   getRoom (store (fst (leaveRoomHandler (demoServerIn Playing) ''a'' ''ROOM01''))) ''ROOM01'' =
     Some (demoRoom\<lparr> players := [\<lparr> player_id = ''b'', username = ''Bob'', numbers = [2, 4] \<rparr>],
                      hostId := ''b'' \<rparr>) \<and>
   getRoom (store (fst (leaveRoomHandler (demoServerIn Playing) ''b'' ''ROOM01''))) ''ROOM01'' =
     Some (demoRoom\<lparr> players := [\<lparr> player_id = ''a'', username = ''Ann'', numbers = [1, 3] \<rparr>] \<rparr>) \<and>
   getRoom (store soloServer) ''ROOM02'' \<noteq> None \<and>
   getRoom (store (fst (leaveRoomHandler soloServer ''z'' ''ROOM02''))) ''ROOM02'' = None \<and>
   snd (leaveRoomHandler soloServer ''z'' ''ROOM02'') = [ToSocket ''z'' LeftRoom]"
proof -
  have g: "getRoom (store (demoServerIn s)) ''ROOM01'' = Some (demoRoom\<lparr> state := s \<rparr>)" for s
    by (simp add: store_demoServerIn getRoom_demoStoreIn)
  have sa: "seated (demoRoom\<lparr> state := s \<rparr>) ''a''" and sb: "seated (demoRoom\<lparr> state := s \<rparr>) ''b''" for s
    by (simp_all add: seated_def demoRoom_def)
  have k: "players_key (store (demoServerIn s))" for s
    by (simp add: store_demoServerIn players_key_demoStoreIn)
  have r: "''ROOM01'' \<noteq> []" "''ROOM02'' \<noteq> []" by simp_all
  have f: "hostId (demoRoom\<lparr> state := s \<rparr>) = ''a''" "state (demoRoom\<lparr> state := s \<rparr>) = s"
    "filter (\<lambda>p. player_id p \<noteq> ''a'') (players (demoRoom\<lparr> state := s \<rparr>)) =
       [\<lparr> player_id = ''b'', username = ''Bob'', numbers = [2, 4] \<rparr>]"
    "filter (\<lambda>p. player_id p \<noteq> ''b'') (players (demoRoom\<lparr> state := s \<rparr>)) =
       [\<lparr> player_id = ''a'', username = ''Ann'', numbers = [1, 3] \<rparr>]" for s
    by (simp_all add: demoRoom_def)
  have p: "demoRoom\<lparr> state := Playing \<rparr> = demoRoom" by (simp add: demoRoom_def)
  from leave_and_disconnect [OF g sa r(1) k, of Lobby] f [of Lobby]
  have lobby: "getRoom (store (fst (leaveRoomHandler (demoServerIn Lobby) ''a'' ''ROOM01'')))
        ''ROOM01'' = None \<and>
      snd (leaveRoomHandler (demoServerIn Lobby) ''a'' ''ROOM01'') =
        [ToRoom ''ROOM01'' (RoomDeleted ''Host left during lobby''), ToSocket ''a'' LeftRoom]"
    by simp
  from leave_and_disconnect [OF g sa r(1) k, of Playing] f [of Playing]
  have host: "getRoom (store (fst (leaveRoomHandler (demoServerIn Playing) ''a'' ''ROOM01'')))
        ''ROOM01'' =
      Some (demoRoom\<lparr> players := [\<lparr> player_id = ''b'', username = ''Bob'', numbers = [2, 4] \<rparr>],
                       hostId := ''b'' \<rparr>)"
    by (simp add: p)
  from leave_and_disconnect [OF g sb r(1) k, of Playing] f [of Playing]
  have other: "getRoom (store (fst (leaveRoomHandler (demoServerIn Playing) ''b'' ''ROOM01'')))
        ''ROOM01'' =
      Some (demoRoom\<lparr> players := [\<lparr> player_id = ''a'', username = ''Ann'', numbers = [1, 3] \<rparr>] \<rparr>)"
    by (simp add: p)
  have solo: "getRoom (store soloServer) ''ROOM02'' =
      Some \<lparr> room_id = ''ROOM02'',
             players = [\<lparr> player_id = ''z'', username = ''Zoe'', numbers = [7] \<rparr>],
             timeline = [5], lives = 2, maxLives = 3, numbersPerPlayer = 2,
             state = GameOver, hostId = ''a'', gameEvents = [] \<rparr>"
    by (simp add: soloServer_def getRoom_def toPlayer_def)
  have sk: "players_key (store soloServer)" by (simp add: soloServer_def players_key_def)
  from leave_and_disconnect [OF solo _ r(2) sk, of "''z''"]
  have last: "getRoom (store (fst (leaveRoomHandler soloServer ''z'' ''ROOM02''))) ''ROOM02'' = None \<and>
      snd (leaveRoomHandler soloServer ''z'' ''ROOM02'') = [ToSocket ''z'' LeftRoom]"
    by (simp add: seated_def)
  from g sa r k lobby host other solo last show ?thesis by simp
qed

text \<open>
  Claim C9: a create-room request with \<^verbatim>\<open>maxLives\<close> outside \<open>[1, 10]\<close> is rejected and no
  room is created. The route sends the status 400 but does not return: on the body
  \<^verbatim>\<open>{maxLives: 0}\<close> the room is created all the same, with 0 lives.
\<close>

theorem postCreateRoom_invalid_maxLives_creates_room:
  "getRoom emptyStore ''ABC123'' = None \<and>
   res_sent (postCreateRoom emptyStore ''ABC123'' (Some 0) None) =
     Some (400, ErrorBody ''Max lives must be between 1 and 10'') \<and>
   getRoom (res_db (postCreateRoom emptyStore ''ABC123'' (Some 0) None)) ''ABC123'' =
     Some \<lparr> room_id = ''ABC123'', players = [], timeline = [], lives = 0, maxLives = 0,
            numbersPerPlayer = 6, state = Lobby, hostId = [], gameEvents = [] \<rparr>"
  by (simp add: postCreateRoom_def createRoom_def createRoomCatch_def emptyStore_def getRoom_def)




section \<open>Claims on sequences of operations\<close>




section \<open>Claims on the timeline\<close>




end
